theory Spec2Isabelle
  imports Complex_Main "HOL-Library.Word" "HOL-Library.Char_ord" "HOL-Library.List_Lexorder"
    "HOL-Library.Product_Lexorder"
begin

section \<open>JavaScript values as the frontend sees them\<close>

text \<open>
  The frontend is TypeScript. Its strings are sequences of UTF-16 code units, so a string is
  a list of 16-bit words; \<open>str\<close> embeds an ASCII literal of the source.
\<close>

type_synonym js_string = "16 word list"

definition str :: "string \<Rightarrow> js_string" where
  "str s = map of_char s"

text \<open>
  \<open>String.prototype.trim\<close> removes the code units of ECMAScript's WhiteSpace and
  LineTerminator productions from both ends.
\<close>

definition is_whitespace :: "16 word \<Rightarrow> bool" where
  "is_whitespace c \<longleftrightarrow>
     c = 0x09 \<or> c = 0x0A \<or> c = 0x0B \<or> c = 0x0C \<or> c = 0x0D \<or> c = 0x20 \<or> c = 0xA0 \<or>
     c = 0x1680 \<or> (0x2000 \<le> c \<and> c \<le> 0x200A) \<or> c = 0x2028 \<or> c = 0x2029 \<or>
     c = 0x202F \<or> c = 0x205F \<or> c = 0x3000 \<or> c = 0xFEFF"

definition trim :: "js_string \<Rightarrow> js_string" where
  "trim s = rev (dropWhile is_whitespace (rev (dropWhile is_whitespace s)))"

text \<open>
  The props and responses are typed \<open>any\<close>: a value is whatever \<open>JSON.parse\<close> or an
  object literal can build, plus \<open>undefined\<close>, which reading a missing property yields.
  Numbers are kept as rationals (the two IEEE zeros are one \<open>0\<close>; \<open>NaN\<close> and the
  infinities are not values of the model). An object is the list of its own properties in
  the order in which they are enumerated (for the property names of this program, the order
  of insertion).
\<close>

datatype js_value =
    Undefined
  | Null
  | Bool bool
  | Num rat
  | Str js_string
  | Arr "js_value list"
  | Obj "(js_string \<times> js_value) list"

text \<open>
  Showing a response fails in two ways: a TypeError thrown while the component function runs
  (a property read on \<open>null\<close> or \<open>undefined\<close>, a call of something that is not a
  function, a value that cannot be converted to a string), and the error that React throws
  afterwards, when it renders the returned elements and meets an object among the children
  ("Objects are not valid as a React child").
\<close>

datatype js_error = TypeError | InvalidChild

text \<open>The condition of \<open>if (v)\<close>, \<open>v || d\<close> and \<open>v && e\<close>.\<close>

fun truthy :: "js_value \<Rightarrow> bool" where
  "truthy Undefined = False"
| "truthy Null = False"
| "truthy (Bool b) = b"
| "truthy (Num x) = (x \<noteq> 0)"
| "truthy (Str s) = (s \<noteq> [])"
| "truthy (Arr xs) = True"
| "truthy (Obj kvs) = True"

definition or_else :: "js_value \<Rightarrow> js_value \<Rightarrow> js_value" where
  "or_else v d = (if truthy v then v else d)"

text \<open>
  \<open>v.k\<close> for the property names the program reads (none of them is inherited from a
  prototype, except \<open>length\<close> of arrays and strings): reading a property of \<open>null\<close> or
  \<open>undefined\<close> throws, a primitive has none of them, an object yields its own property
  or \<open>undefined\<close>.
\<close>

fun lookup :: "(js_string \<times> js_value) list \<Rightarrow> js_string \<Rightarrow> js_value" where
  "lookup [] k = Undefined"
| "lookup ((k', v) # kvs) k = (if k' = k then v else lookup kvs k)"

fun get :: "js_value \<Rightarrow> js_string \<Rightarrow> js_error + js_value" where
  "get Undefined k = Inl TypeError"
| "get Null k = Inl TypeError"
| "get (Bool b) k = Inr Undefined"
| "get (Num x) k = Inr Undefined"
| "get (Str s) k = Inr (if k = str ''length'' then Num (of_nat (length s)) else Undefined)"
| "get (Arr xs) k = Inr (if k = str ''length'' then Num (of_nat (length xs)) else Undefined)"
| "get (Obj kvs) k = Inr (lookup kvs k)"

text \<open>Optional chaining \<open>v?.k\<close>: \<open>undefined\<close> instead of the TypeError.\<close>

definition opt_get :: "js_value \<Rightarrow> js_string \<Rightarrow> js_value" where
  "opt_get v k = (case get v k of Inl e \<Rightarrow> Undefined | Inr x \<Rightarrow> x)"

text \<open>\<open>o.k = v\<close> on an object literal: an existing property keeps its place, a new one
  goes last.\<close>

fun assign :: "(js_string \<times> js_value) list \<Rightarrow> js_string \<Rightarrow> js_value \<Rightarrow> (js_string \<times> js_value) list" where
  "assign [] k v = [(k, v)]"
| "assign ((k', v') # kvs) k v = (if k' = k then (k, v) # kvs else (k', v') # assign kvs k v)"

section \<open>page.tsx: \<open>handleSearch\<close>\<close>

record page_state =
  searchResults :: js_value
  isLoading :: bool
  activeTab :: js_string

definition initial_page :: page_state where
  "initial_page = \<lparr>searchResults = Null, isLoading = False, activeTab = str ''search''\<rparr>"

text \<open>The arguments of the one \<open>fetch\<close> call; \<open>body\<close> is the payload that
  \<open>JSON.stringify\<close> serialises.\<close>

record request =
  url :: js_string
  http_method :: js_string
  content_type :: js_string
  body :: js_value

text \<open>
  What the awaited calls can do: \<open>fetch\<close> rejects, or it resolves to a response
  \<open>Resolves ok status data\<close> with its \<open>ok\<close> flag and status, whose \<open>json()\<close> resolves
  to a value or rejects (\<open>data = None\<close>).
\<close>

datatype fetch_result =
    Rejects
  | Resolves bool nat "js_value option"

text \<open>The \<open>switch\<close> of lines 20 to 45: the endpoint and the payload of each method.\<close>

definition endpoint_payload :: "js_string \<Rightarrow> js_string \<Rightarrow> js_value \<Rightarrow> js_string \<times> (js_string \<times> js_value) list" where
  "endpoint_payload query method options =
    (let payload = [(str ''query'', Str query)] in
     if method = str ''boolean'' then (str ''/api/search/boolean'', payload)
     else if method = str ''vector'' then
       (str ''/api/search/vector'',
        assign payload (str ''top_k'') (or_else (opt_get options (str ''top_k'')) (Num 5)))
     else if method = str ''bm25'' then
       (str ''/api/search/bm25'',
        assign payload (str ''top_k'') (or_else (opt_get options (str ''top_k'')) (Num 5)))
     else if method = str ''proximity'' then
       (str ''/api/search/proximity'',
        assign (assign (assign payload
          (str ''term1'') (or_else (opt_get options (str ''term1'')) (Str [])))
          (str ''term2'') (or_else (opt_get options (str ''term2'')) (Str [])))
          (str ''k'') (or_else (opt_get options (str ''k'')) (Num 5)))
     else if method = str ''multi'' then
       (str ''/api/search/multi'',
        assign payload (str ''top_k'') (or_else (opt_get options (str ''top_k'')) (Num 5)))
     else (str ''/api/search/vector'', assign payload (str ''top_k'') (Num 5)))"

definition search_request :: "js_string \<Rightarrow> js_string \<Rightarrow> js_value \<Rightarrow> request" where
  "search_request query method options =
    (case endpoint_payload query method options of
       (endpoint, payload) \<Rightarrow>
         \<lparr>url = str ''http://localhost:5002'' @ endpoint,
          http_method = str ''POST'',
          content_type = str ''application/json'',
          body = Obj payload\<rparr>)"

text \<open>
  One invocation of \<open>handleSearch\<close>, run to completion against a server \<open>env\<close> that
  answers the request: the request sent and the state after \<open>finally\<close>. Every throw
  inside \<open>try\<close> (a rejected \<open>fetch\<close>, the \<open>Error\<close> thrown for \<open>!response.ok\<close>, a
  rejected \<open>json()\<close>) lands in \<open>catch\<close>.
\<close>

definition handleSearch :: "(request \<Rightarrow> fetch_result) \<Rightarrow> page_state \<Rightarrow> js_string \<Rightarrow> js_string \<Rightarrow> js_value \<Rightarrow> request \<times> page_state" where
  "handleSearch env st query method options =
    (let st1 = st\<lparr>isLoading := True\<rparr>;
         req = search_request query method options;
         st2 = (case env req of
                  Rejects \<Rightarrow> st1\<lparr>searchResults := Null\<rparr>
                | Resolves ok status data \<Rightarrow>
                    if \<not> ok then st1\<lparr>searchResults := Null\<rparr>
                    else (case data of
                            None \<Rightarrow> st1\<lparr>searchResults := Null\<rparr>
                          | Some d \<Rightarrow> st1\<lparr>searchResults := d\<rparr>))
     in (req, st2\<lparr>isLoading := False\<rparr>))"

section \<open>SearchInterface: the form, its inputs and \<open>handleSubmit\<close>\<close>

text \<open>
  \<open>parseInt(s)\<close> with no radix: leading white space is skipped, then an optional sign, then
  an optional \<open>0x\<close>/\<open>0X\<close> that selects radix 16, then the longest run of digits of the radix.
  The result is the Number value for the integer that the digits denote: \<open>NaN\<close> when
  there is no digit; the integer itself when it is at most 2^53 in magnitude (every such
  integer is a Number); beyond that the integer is rounded to a double, for a long digit
  string to \<open>Infinity\<close>: \<open>Inexact\<close>, a truthy number whose value the model does not
  follow.
\<close>

datatype parsed = NaN | Exact int | Inexact

fun strip_sign :: "js_string \<Rightarrow> bool \<times> js_string" where
  "strip_sign [] = (False, [])"
| "strip_sign (c # cs) =
     (if c = 0x2D then (True, cs) else if c = 0x2B then (False, cs) else (False, c # cs))"

fun strip_prefix :: "js_string \<Rightarrow> nat \<times> js_string" where
  "strip_prefix (a # b # cs) =
     (if a = 0x30 \<and> (b = 0x78 \<or> b = 0x58) then (16, cs) else (10, a # b # cs))"
| "strip_prefix cs = (10, cs)"

definition digit_of :: "16 word \<Rightarrow> nat" where
  "digit_of c =
     (if 0x30 \<le> c \<and> c \<le> 0x39 then unat c - 48
      else if 0x61 \<le> c \<and> c \<le> 0x7A then unat c - 87
      else if 0x41 \<le> c \<and> c \<le> 0x5A then unat c - 55
      else 36)"

definition parseInt :: "js_string \<Rightarrow> parsed" where
  "parseInt s =
     (case strip_sign (dropWhile is_whitespace s) of
        (negative, s2) \<Rightarrow>
          (case strip_prefix s2 of
             (R, s3) \<Rightarrow>
               (let Z = takeWhile (\<lambda>c. digit_of c < R) s3;
                    n = foldl (\<lambda>a c. a * R + digit_of c) 0 Z
                in
                if Z = [] then NaN
                else if n \<le> 2 ^ 53 then Exact ((if negative then - 1 else 1) * int n)
                else Inexact)))"

text \<open>\<open>parseInt(e.target.value) || 5\<close>: \<open>NaN\<close> and \<open>0\<close> (of either sign) are falsy.
  \<open>None\<close> stands for the numbers that the model does not follow.\<close>

definition parseInt_or_5 :: "js_string \<Rightarrow> int option" where
  "parseInt_or_5 s =
     (case parseInt s of
        NaN \<Rightarrow> Some 5
      | Exact n \<Rightarrow> Some (if n = 0 then 5 else n)
      | Inexact \<Rightarrow> None)"

text \<open>The six \<open>useState\<close> cells of the component, with their initial values.\<close>

record search_form =
  query :: js_string
  method' :: js_string
  topK :: int
  term1 :: js_string
  term2 :: js_string
  proximityK :: int

definition initial_form :: search_form where
  "initial_form =
     \<lparr>query = [], method' = str ''vector'', topK = 5, term1 = [], term2 = [], proximityK = 5\<rparr>"

text \<open>The \<open>onChange\<close> and \<open>onClick\<close> handlers, each given the input's new text. The
  two number inputs store \<open>parseInt(text) || 5\<close>; their handlers end in a state of the
  model for every text whose integer is at most 2^53 in magnitude (\<open>None\<close> beyond: the
  cell then holds a double that is not an integer of the model).\<close>

definition setQuery :: "js_string \<Rightarrow> search_form \<Rightarrow> search_form" where
  "setQuery v f = f\<lparr>query := v\<rparr>"

definition setMethod :: "js_string \<Rightarrow> search_form \<Rightarrow> search_form" where
  "setMethod v f = f\<lparr>method' := v\<rparr>"

definition onTopKChange :: "js_string \<Rightarrow> search_form \<Rightarrow> search_form option" where
  "onTopKChange v f = map_option (\<lambda>n. f\<lparr>topK := n\<rparr>) (parseInt_or_5 v)"

definition setTerm1 :: "js_string \<Rightarrow> search_form \<Rightarrow> search_form" where
  "setTerm1 v f = f\<lparr>term1 := v\<rparr>"

definition setTerm2 :: "js_string \<Rightarrow> search_form \<Rightarrow> search_form" where
  "setTerm2 v f = f\<lparr>term2 := v\<rparr>"

definition onProximityKChange :: "js_string \<Rightarrow> search_form \<Rightarrow> search_form option" where
  "onProximityKChange v f = map_option (\<lambda>n. f\<lparr>proximityK := n\<rparr>) (parseInt_or_5 v)"

text \<open>
  \<open>handleSubmit\<close>: the arguments of the \<open>onSearch\<close> call it makes, or \<open>None\<close> when it
  returns without calling \<open>onSearch\<close>. The \<open>switch\<close> has no case for \<open>boolean\<close>,
  \<open>multi\<close> or any other method: their options stay \<open>{}\<close>.
\<close>

definition handleSubmit :: "search_form \<Rightarrow> (js_string \<times> js_string \<times> js_value) option" where
  "handleSubmit f =
     (if trim (query f) = [] then None
      else if method' f = str ''vector'' \<or> method' f = str ''bm25'' then
        Some (trim (query f), method' f, Obj [(str ''top_k'', Num (of_int (topK f)))])
      else if method' f = str ''proximity'' then
        (if trim (term1 f) = [] \<or> trim (term2 f) = [] then None
         else Some (trim (query f), method' f,
                    Obj [(str ''term1'', Str (trim (term1 f))),
                         (str ''term2'', Str (trim (term2 f))),
                         (str ''k'', Num (of_int (proximityK f)))]))
      else Some (trim (query f), method' f, Obj []))"

text \<open>The \<open>disabled\<close> attribute of the submit button.\<close>

definition submit_disabled :: "bool \<Rightarrow> search_form \<Rightarrow> bool" where
  "submit_disabled loading f \<longleftrightarrow>
     loading \<or> trim (query f) = [] \<or>
     (method' f = str ''proximity'' \<and> (trim (term1 f) = [] \<or> trim (term2 f) = []))"

text \<open>
  The page passes \<open>handleSearch\<close> as \<open>onSearch\<close>: a submit of the form either sends one
  request and ends in a new page state, or does nothing (\<open>None\<close>).
\<close>

definition submit :: "(request \<Rightarrow> fetch_result) \<Rightarrow> page_state \<Rightarrow> search_form \<Rightarrow> (request \<times> page_state) option" where
  "submit env st f =
     (case handleSubmit f of
        None \<Rightarrow> None
      | Some (q, m, options) \<Rightarrow> Some (handleSearch env st q m options))"

section \<open>SearchResults.tsx: what the component returns and what React shows\<close>

text \<open>
  The component is a function from its \<open>results\<close> prop to an element tree, which React
  then renders. The model keeps the content of the tree (which branch was taken, which
  values are shown) and drops the styling. A property read on \<open>null\<close> or \<open>undefined\<close>,
  and a call of something that is not a function, throw a TypeError, which ends the call.
\<close>

definition and_then :: "js_error + 'a \<Rightarrow> ('a \<Rightarrow> js_error + 'b) \<Rightarrow> js_error + 'b" where
  "and_then r f = (case r of Inl e \<Rightarrow> Inl e | Inr x \<Rightarrow> f x)"

text \<open>\<open>xs.map((doc, index) => ...)\<close>: only an array has \<open>map\<close>.\<close>

fun map_index :: "(js_value \<Rightarrow> nat \<Rightarrow> js_error + 'b) \<Rightarrow> nat \<Rightarrow> js_value list \<Rightarrow> js_error + 'b list" where
  "map_index f i [] = Inr []"
| "map_index f i (x # xs) =
     and_then (f x i) (\<lambda>y. and_then (map_index f (Suc i) xs) (\<lambda>ys. Inr (y # ys)))"

fun array_map :: "js_value \<Rightarrow> (js_value \<Rightarrow> nat \<Rightarrow> js_error + 'b) \<Rightarrow> js_error + 'b list" where
  "array_map (Arr xs) f = map_index f 0 xs"
| "array_map v f = Inl TypeError"

text \<open>\<open>xs.slice(0, 3).map(...)\<close>: a string has \<open>slice\<close> too, but its slice has no \<open>map\<close>.\<close>

fun slice3_map :: "js_value \<Rightarrow> (js_value \<Rightarrow> nat \<Rightarrow> js_error + 'b) \<Rightarrow> js_error + 'b list" where
  "slice3_map (Arr xs) f = map_index f 0 (take 3 xs)"
| "slice3_map v f = Inl TypeError"

text \<open>\<open>v.length === 0\<close>.\<close>

definition length_is_0 :: "js_value \<Rightarrow> js_error + bool" where
  "length_is_0 v = and_then (get v (str ''length'')) (\<lambda>l. Inr (l = Num 0))"

text \<open>
  The value of a \<open>key\<close> attribute is converted to a string when the element is created
  (\<open>'' + key\<close>; an \<open>undefined\<close> key is left out), and so is a value inside a template
  literal. The conversion of an object calls its \<open>toString\<close>: it throws a TypeError when the
  object has an own property of that name, which in a response is never a function. An
  array is converted by joining the conversions of its elements.
\<close>

fun stringifies :: "js_value \<Rightarrow> bool" where
  "stringifies (Obj kvs) \<longleftrightarrow> str ''toString'' \<notin> fst ` set kvs"
| "stringifies (Arr xs) \<longleftrightarrow> (\<forall>x\<in>set xs. stringifies x)"
| "stringifies v \<longleftrightarrow> True"

definition coerce_key :: "js_value \<Rightarrow> js_error + unit" where
  "coerce_key v = (if stringifies v then Inr () else Inl TypeError)"

text \<open>The decimal digits of a natural number.\<close>

fun decimal :: "nat \<Rightarrow> js_string" where
  "decimal n = (if n < 10 then [of_nat (48 + n)] else decimal (n div 10) @ [of_nat (48 + n mod 10)])"

declare decimal.simps [simp del]

text \<open>
  \<open>x.toFixed(4)\<close> for a number below 10^21 in magnitude: with \<open>n\<close> the integer nearest
  to \<open>|x| * 10^4\<close> (the larger one of two equally near), the digits of \<open>n\<close>, padded with
  zeros to at least five, with the point before the last four and \<open>-\<close> in front when
  \<open>x < 0\<close>. \<open>Num x\<close> holds the exact value of the double.
\<close>

definition fixed4 :: "rat \<Rightarrow> js_string" where
  "fixed4 x =
     (let n = nat \<lfloor>\<bar>x\<bar> * 10000 + 1 / 2\<rfloor>;
          m = decimal n;
          digits = replicate (5 - length m) 0x30 @ m
      in (if x < 0 then [0x2D] else []) @
         take (length digits - 4) digits @ [0x2E] @ drop (length digits - 4) digits)"

text \<open>The text that \<open>toFixed(4)\<close> returns: \<open>Fixed\<close> with the four decimals, or, for a
  number of magnitude 10^21 and more, the exponential notation of \<open>Number::toString\<close>,
  whose digits are not modelled (\<open>Exponential x\<close>).\<close>

datatype fixed = Fixed js_string | Exponential rat

text \<open>\<open>v.toFixed(4)\<close>: only a number has \<open>toFixed\<close>.\<close>

fun toFixed4 :: "js_value \<Rightarrow> js_error + fixed" where
  "toFixed4 (Num x) = Inr (if \<bar>x\<bar> < 10 ^ 21 then Fixed (fixed4 x) else Exponential x)"
| "toFixed4 v = Inl TypeError"

text \<open>
  One document of a result list, with its number \<open>index + 1\<close>:
  \<^item> \<open>BooleanDoc n title doc_id filename length\<close>;
  \<^item> \<open>ScoredDoc n title doc_id score\<close>, the score printed by \<open>toFixed(4)\<close>;
  \<^item> \<open>ProximityDoc n title doc_id distance\<close>;
  \<^item> \<open>MultiDoc n title doc_id score distance\<close>: \<open>score\<close> is \<open>Inr x\<close> when
    \<open>doc.score\<close> is truthy and printed, \<open>Inl v\<close> when the falsy \<open>v\<close> stands in its
    place; \<open>distance\<close> is printed when truthy.
\<close>

datatype doc_view =
    BooleanDoc nat js_value js_value js_value js_value
  | ScoredDoc nat js_value js_value fixed
  | ProximityDoc nat js_value js_value js_value
  | MultiDoc nat js_value js_value "js_value + fixed" js_value

text \<open>A result list: the "no results" paragraph with its text, or the documents, followed
  in the multi-model view by "... and n more results" (\<open>Some n\<close>).\<close>

datatype listing =
    NoResults js_string
  | Docs "doc_view list" "nat option"

text \<open>
  \<^item> \<open>BooleanResults results_count processing_time listing\<close>
  \<^item> \<open>VectorResults results_count top_k processing_time listing\<close>
  \<^item> \<open>ProximityResults results_count processing_time term1 term2 proximity_threshold listing\<close>
  \<^item> \<open>MultiSection heading results_count processing_time listing\<close>, one per entry of
    \<open>results.results\<close>; \<open>MultiModelResults query top_k sections\<close>
  \<^item> \<open>UnknownMethod\<close>: the paragraph "Unknown search method."
\<close>

datatype section_view = MultiSection js_string js_value js_value listing

datatype body_view =
    BooleanResults js_value js_value listing
  | VectorResults js_value js_value js_value listing
  | ProximityResults js_value js_value js_value js_value js_value listing
  | MultiModelResults js_value js_value "section_view list"
  | UnknownMethod

text \<open>The two cards: "Search Error" with \<open>results.error\<close>, or "Search Results" with
  \<open>results.method\<close>, \<open>results.query\<close> and the body.\<close>

datatype view =
    SearchError js_value
  | SearchResultsCard js_value js_value body_view

definition renderBooleanResults :: "js_value \<Rightarrow> js_error + body_view" where
  "renderBooleanResults results =
     and_then (get results (str ''results_count'')) (\<lambda>count.
     and_then (get results (str ''processing_time'')) (\<lambda>time.
     and_then (get results (str ''results'')) (\<lambda>rs.
     and_then (length_is_0 rs) (\<lambda>empty.
       if empty then
         Inr (BooleanResults count time
                (NoResults (str ''No documents found matching all query terms.'')))
       else
         and_then (array_map rs (\<lambda>doc index.
           and_then (get doc (str ''doc_id'')) (\<lambda>doc_id.
           and_then (coerce_key doc_id) (\<lambda>key.
           and_then (get doc (str ''title'')) (\<lambda>title.
           and_then (get doc (str ''filename'')) (\<lambda>filename.
           and_then (get doc (str ''length'')) (\<lambda>len.
             Inr (BooleanDoc (index + 1) title doc_id filename len))))))))
         (\<lambda>docs. Inr (BooleanResults count time (Docs docs None)))))))"

definition renderVectorResults :: "js_value \<Rightarrow> js_error + body_view" where
  "renderVectorResults results =
     and_then (get results (str ''results_count'')) (\<lambda>count.
     and_then (get results (str ''top_k'')) (\<lambda>top_k.
     and_then (get results (str ''processing_time'')) (\<lambda>time.
     and_then (get results (str ''results'')) (\<lambda>rs.
     and_then (length_is_0 rs) (\<lambda>empty.
       if empty then
         Inr (VectorResults count top_k time (NoResults (str ''No relevant documents found.'')))
       else
         and_then (array_map rs (\<lambda>doc index.
           and_then (get doc (str ''doc_id'')) (\<lambda>doc_id.
           and_then (coerce_key doc_id) (\<lambda>key.
           and_then (get doc (str ''title'')) (\<lambda>title.
           and_then (get doc (str ''score'')) (\<lambda>score.
           and_then (toFixed4 score) (\<lambda>shown.
             Inr (ScoredDoc (index + 1) title doc_id shown))))))))
         (\<lambda>docs. Inr (VectorResults count top_k time (Docs docs None))))))))"

definition renderProximityResults :: "js_value \<Rightarrow> js_error + body_view" where
  "renderProximityResults results =
     and_then (get results (str ''results_count'')) (\<lambda>count.
     and_then (get results (str ''processing_time'')) (\<lambda>time.
     and_then (get results (str ''term1'')) (\<lambda>t1.
     and_then (get results (str ''term2'')) (\<lambda>t2.
     and_then (get results (str ''proximity_threshold'')) (\<lambda>threshold.
     and_then (get results (str ''results'')) (\<lambda>rs.
     and_then (length_is_0 rs) (\<lambda>empty.
       if empty then
         Inr (ProximityResults count time t1 t2 threshold
                (NoResults (str ''No documents found with the specified terms in proximity.'')))
       else
         and_then (array_map rs (\<lambda>doc index.
           and_then (get doc (str ''doc_id'')) (\<lambda>doc_id.
           and_then (coerce_key doc_id) (\<lambda>key.
           and_then (get doc (str ''title'')) (\<lambda>title.
           and_then (get doc (str ''distance'')) (\<lambda>distance.
             Inr (ProximityDoc (index + 1) title doc_id distance)))))))
         (\<lambda>docs. Inr (ProximityResults count time t1 t2 threshold (Docs docs None))))))))))"

text \<open>
  \<open>Object.entries(v)\<close>: the own properties of an object in enumeration order, the
  indexed elements of an array or a string under their decimal indices, nothing for a
  number or a boolean, a TypeError for \<open>null\<close> and \<open>undefined\<close>.
\<close>

fun entries :: "js_value \<Rightarrow> js_error + (js_string \<times> js_value) list" where
  "entries Undefined = Inl TypeError"
| "entries Null = Inl TypeError"
| "entries (Bool b) = Inr []"
| "entries (Num x) = Inr []"
| "entries (Str s) = Inr (map (\<lambda>i. (decimal i, Str [s ! i])) [0..<length s])"
| "entries (Arr xs) = Inr (map (\<lambda>i. (decimal i, xs ! i)) [0..<length xs])"
| "entries (Obj kvs) = Inr kvs"

fun map_entries :: "(js_string \<times> js_value \<Rightarrow> js_error + 'b) \<Rightarrow> (js_string \<times> js_value) list \<Rightarrow> js_error + 'b list" where
  "map_entries f [] = Inr []"
| "map_entries f (e # es) =
     and_then (f e) (\<lambda>y. and_then (map_entries f es) (\<lambda>ys. Inr (y # ys)))"

definition section_heading :: "js_string \<Rightarrow> js_string" where
  "section_heading method =
     (if method = str ''vector'' then str ''TF-IDF Vector Search''
      else if method = str ''bm25'' then str ''BM25 Search''
      else if method = str ''boolean'' then str ''Boolean Search''
      else method) @ str '' Results''"

definition renderMultiSection :: "js_string \<times> js_value \<Rightarrow> js_error + section_view" where
  "renderMultiSection entry =
     (case entry of (method, methodResults) \<Rightarrow>
     and_then (get methodResults (str ''results_count'')) (\<lambda>count.
     and_then (get methodResults (str ''processing_time'')) (\<lambda>time.
     and_then (get methodResults (str ''results'')) (\<lambda>rs.
     and_then (length_is_0 rs) (\<lambda>empty.
       if empty then
         Inr (MultiSection (section_heading method) count time
                (NoResults (str ''No results found.'')))
       else
         and_then (slice3_map rs (\<lambda>doc index.
           and_then (get doc (str ''doc_id'')) (\<lambda>doc_id.
           and_then (coerce_key doc_id) (\<lambda>key.
           and_then (get doc (str ''title'')) (\<lambda>title.
           and_then (get doc (str ''score'')) (\<lambda>score.
           and_then (if truthy score then and_then (toFixed4 score) (\<lambda>x. Inr (Inr x))
                     else Inr (Inl score)) (\<lambda>shown.
           and_then (get doc (str ''distance'')) (\<lambda>distance.
             Inr (MultiDoc (index + 1) title doc_id shown distance)))))))))
         (\<lambda>docs.
           (case rs of
              Arr xs \<Rightarrow>
                Inr (MultiSection (section_heading method) count time
                       (Docs docs (if length xs > 3 then Some (length xs - 3) else None)))
            | _ \<Rightarrow> Inl TypeError)))))))"

definition renderMultiModelResults :: "js_value \<Rightarrow> js_error + body_view" where
  "renderMultiModelResults results =
     and_then (get results (str ''query'')) (\<lambda>q.
     and_then (get results (str ''top_k'')) (\<lambda>top_k.
     and_then (get results (str ''results'')) (\<lambda>rs.
     and_then (entries rs) (\<lambda>es.
     and_then (map_entries renderMultiSection es) (\<lambda>sections.
       Inr (MultiModelResults q top_k sections))))))"

definition renderResults :: "js_value \<Rightarrow> js_error + body_view" where
  "renderResults results =
     and_then (get results (str ''method'')) (\<lambda>m.
       if m = Str (str ''Boolean Search'') then renderBooleanResults results
       else if m = Str (str ''TF-IDF Vector Search'') then renderVectorResults results
       else if m = Str (str ''BM25 Search'') then renderVectorResults results
       else if m = Str (str ''Proximity Search'') then renderProximityResults results
       else if m = Str (str ''Multi-Model Search'') then renderMultiModelResults results
       else Inr UnknownMethod)"

definition SearchResults :: "js_value \<Rightarrow> js_error + view" where
  "SearchResults results =
     and_then (get results (str ''error'')) (\<lambda>err.
       if truthy err then Inr (SearchError err)
       else
         and_then (get results (str ''method'')) (\<lambda>m.
         and_then (get results (str ''query'')) (\<lambda>q.
         and_then (renderResults results) (\<lambda>b.
           Inr (SearchResultsCard m q b)))))"

text \<open>
  React renders the returned elements after the call. A child \<open>{v}\<close> is shown as text when
  \<open>v\<close> is a string or a number, as nothing when it is a boolean, \<open>null\<close> or
  \<open>undefined\<close>, element by element when it is an array; an object is not a valid child and
  makes the rendering throw.
\<close>

fun valid_child :: "js_value \<Rightarrow> bool" where
  "valid_child (Obj kvs) \<longleftrightarrow> False"
| "valid_child (Arr xs) \<longleftrightarrow> (\<forall>x\<in>set xs. valid_child x)"
| "valid_child v \<longleftrightarrow> True"

text \<open>
  The values of the response that a view holds as children \<open>{v}\<close>. In the multi-model
  view \<open>{doc.score && ...}\<close> leaves a falsy score itself as the child, and
  \<open>{doc.distance && ...}\<close> leaves a falsy distance itself and shows a truthy one.
\<close>

fun doc_children :: "doc_view \<Rightarrow> js_value list" where
  "doc_children (BooleanDoc n title doc_id filename len) = [title, doc_id, filename, len]"
| "doc_children (ScoredDoc n title doc_id shown) = [title, doc_id]"
| "doc_children (ProximityDoc n title doc_id distance) = [title, doc_id, distance]"
| "doc_children (MultiDoc n title doc_id shown distance) =
     [title, doc_id] @ (case shown of Inl v \<Rightarrow> [v] | Inr x \<Rightarrow> []) @ [distance]"

fun listing_children :: "listing \<Rightarrow> js_value list" where
  "listing_children (NoResults message) = []"
| "listing_children (Docs docs rest) = concat (map doc_children docs)"

fun section_children :: "section_view \<Rightarrow> js_value list" where
  "section_children (MultiSection heading count time l) = [count, time] @ listing_children l"

fun body_children :: "body_view \<Rightarrow> js_value list" where
  "body_children (BooleanResults count time l) = [count, time] @ listing_children l"
| "body_children (VectorResults count top_k time l) = [count, top_k, time] @ listing_children l"
| "body_children (ProximityResults count time t1 t2 threshold l) =
     [count, time, t1, t2, threshold] @ listing_children l"
| "body_children (MultiModelResults q top_k sections) =
     [q, top_k] @ concat (map section_children sections)"
| "body_children UnknownMethod = []"

fun view_children :: "view \<Rightarrow> js_value list" where
  "view_children (SearchError err) = [err]"
| "view_children (SearchResultsCard m q b) = [m, q] @ body_children b"

text \<open>
  What \<open><SearchResults results={...} />\<close> comes to: the call of the component, then the
  rendering of what it returned. The result is the view on the screen, or the error thrown
  (nothing of the component is shown then).
\<close>

definition render :: "js_value \<Rightarrow> js_error + view" where
  "render results =
     and_then (SearchResults results) (\<lambda>v.
       if list_all valid_child (view_children v) then Inr v else Inl InvalidChild)"

text \<open>The page shows the component only for a truthy \<open>searchResults\<close>
  (\<open>searchResults && <SearchResults ... />\<close>).\<close>

definition search_tab :: "page_state \<Rightarrow> (js_error + view) option" where
  "search_tab st =
     (if truthy (searchResults st) then Some (render (searchResults st)) else None)"

section \<open>The retrieval engine\<close>

text \<open>
  The sources hold the frontend only: the Flask backend that answers the requests (index
  construction and the four search algorithms) is not among them. The definitions of this
  section are written from the specification, each under the sentence it follows. Document
  identifiers, titles and terms are strings, ordered as strings (by character code).
\<close>

subsection \<open>Data model and index construction\<close>

text \<open>Modelled from the spec: the Document of section 3 as \<open>BuildIndex\<close> receives it
  (section 6): \<open>doc_id\<close>, \<open>title\<close>, \<open>filename\<close> and the token sequence that the external
  tokenizer produced; \<open>token_count\<close> is the length of \<open>tokens\<close>.\<close>

record document =
  doc_id :: string
  title :: string
  filename :: string
  tokens :: "string list"

text \<open>Modelled from the spec: the Posting of section 3, \<open>(doc_id, positions)\<close>, the
  positions being 0-based token offsets in increasing order.\<close>

type_synonym posting = "string \<times> nat list"

text \<open>Modelled from the spec: the Term Dictionary and the Positional Inverted Index of
  section 2: \<open>term_ids\<close> maps a term to its dense integer id, \<open>terms\<close> lists the terms in
  first-seen order (the id of a term is its place in the list), \<open>postings\<close> maps a term id
  to its postings.\<close>

record index =
  term_ids :: "string \<rightharpoonup> nat"
  terms :: "string list"
  postings :: "nat \<rightharpoonup> posting list"

text \<open>Modelled from the spec: the index before the build pass; no term has an entry.\<close>

definition empty_index :: index where
  "empty_index = \<lparr>term_ids = Map.empty, terms = [], postings = Map.empty\<rparr>"

text \<open>Modelled from the spec: \<open>termId(term) \<rightarrow> optional term_id\<close> of section 4.1.\<close>

definition termId :: "index \<Rightarrow> string \<Rightarrow> nat option" where
  "termId idx t = term_ids idx t"

text \<open>Modelled from the spec: \<open>postings(term_id) \<rightarrow> sequence of Posting\<close> of section 4.1.\<close>

definition postings_of :: "index \<Rightarrow> nat \<Rightarrow> posting list" where
  "postings_of idx tid = (case postings idx tid of None \<Rightarrow> [] | Some ps \<Rightarrow> ps)"

text \<open>Modelled from the spec: \<open>documentFrequency(term_id) \<rightarrow> integer\<close> of section 4.1, the
  number of documents with a posting for the term.\<close>

definition documentFrequency :: "index \<Rightarrow> nat \<Rightarrow> nat" where
  "documentFrequency idx tid = length (postings_of idx tid)"

text \<open>Modelled from the spec: "record \<open>(doc_id, i)\<close> under \<open>t\<close>'s posting list" (section
  4.1): the position joins the document's posting, or starts one at the end of the list.\<close>

fun record_position :: "string \<Rightarrow> nat \<Rightarrow> posting list \<Rightarrow> posting list" where
  "record_position d i [] = [(d, [i])]"
| "record_position d i ((d', ps) # rest) =
     (if d' = d then (d', ps @ [i]) # rest else (d', ps) # record_position d i rest)"

text \<open>Modelled from the spec: one step of the linear pass of section 4.1 for the token
  \<open>t\<close> at position \<open>i\<close> of document \<open>d\<close>, "creating the list if \<open>t\<close> is new" and
  "assigning new term IDs for unseen terms".\<close>

definition add_token :: "index \<Rightarrow> string \<Rightarrow> nat \<Rightarrow> string \<Rightarrow> index" where
  "add_token idx d i t =
     (case term_ids idx t of
        None \<Rightarrow>
          idx\<lparr>term_ids := (term_ids idx)(t \<mapsto> length (terms idx)),
              terms := terms idx @ [t],
              postings := (postings idx)(length (terms idx) \<mapsto> record_position d i [])\<rparr>
      | Some tid \<Rightarrow>
          idx\<lparr>postings := (postings idx)(tid \<mapsto> record_position d i (postings_of idx tid))\<rparr>)"

text \<open>Modelled from the spec: "for each position \<open>i\<close> and token \<open>t\<close>" of one document,
  from position \<open>i\<close> on.\<close>

fun add_tokens :: "index \<Rightarrow> string \<Rightarrow> nat \<Rightarrow> string list \<Rightarrow> index" where
  "add_tokens idx d i [] = idx"
| "add_tokens idx d i (t # ts) = add_tokens (add_token idx d i t) d (Suc i) ts"

text \<open>Modelled from the spec: \<open>addDocument(doc_id, tokens)\<close> of section 4.1.\<close>

definition addDocument :: "index \<Rightarrow> string \<Rightarrow> string list \<Rightarrow> index" where
  "addDocument idx d ts = add_tokens idx d 0 ts"

text \<open>Modelled from the spec: the error taxonomy of section 7, as far as the search
  operations raise it.\<close>

datatype search_error = BuildError | InvalidQuery

text \<open>Modelled from the spec: the engine value that \<open>BuildIndex\<close> returns (section 9):
  the documents in insertion order and the index built from them.\<close>

record engine =
  documents :: "document list"
  index :: index

text \<open>Modelled from the spec: the single pass over the document set (section 4.1).\<close>

definition index_documents :: "document list \<Rightarrow> index" where
  "index_documents docs = foldl (\<lambda>idx d. addDocument idx (doc_id d) (tokens d)) empty_index docs"

text \<open>Modelled from the spec: \<open>BuildIndex\<close> of section 6, "a build failure if the input is
  empty or contains duplicate \<open>doc_id\<close>s".\<close>

definition BuildIndex :: "document list \<Rightarrow> search_error + engine" where
  "BuildIndex docs =
     (if docs = [] \<or> \<not> distinct (map doc_id docs) then Inl BuildError
      else Inr \<lparr>documents = docs, index = index_documents docs\<rparr>)"

subsection \<open>Boolean search\<close>

text \<open>Modelled from the spec: a Boolean result "carries \<open>doc_id\<close>, \<open>title\<close>, \<open>filename\<close>,
  \<open>token_count\<close>" (section 4.2).\<close>

datatype boolean_hit =
  BooleanHit (hit_doc_id: string) (hit_title: string) (hit_filename: string) (hit_token_count: nat)

text \<open>Modelled from the spec: the result record of a matching document.\<close>

definition boolean_hit :: "document \<Rightarrow> boolean_hit" where
  "boolean_hit d = BooleanHit (doc_id d) (title d) (filename d) (length (tokens d))"

text \<open>Modelled from the spec: "normalize to a set of terms" (section 4.2). The tokenizer
  is an external collaborator; the search operations take it as the parameter \<open>tok\<close>.\<close>

definition query_terms :: "(string \<Rightarrow> string list) \<Rightarrow> string \<Rightarrow> string list" where
  "query_terms tok q = remdups (tok q)"

text \<open>Modelled from the spec: the constraint "at least one non-empty term after
  normalization" (section 4.2); a query without one is an InvalidQuery (section 7).\<close>

definition valid_query :: "(string \<Rightarrow> string list) \<Rightarrow> string \<Rightarrow> bool" where
  "valid_query tok q \<longleftrightarrow> (\<exists>t\<in>set (tok q). t \<noteq> [])"

text \<open>Modelled from the spec: "compute the inverted posting document-ID sets for each
  term"; a term with no dictionary entry ends the computation (\<open>None\<close>).\<close>

fun posting_sets :: "index \<Rightarrow> string list \<Rightarrow> string list list option" where
  "posting_sets idx [] = Some []"
| "posting_sets idx (t # ts) =
     (case termId idx t of
        None \<Rightarrow> None
      | Some tid \<Rightarrow>
          (case posting_sets idx ts of
             None \<Rightarrow> None
           | Some ss \<Rightarrow> Some (map fst (postings_of idx tid) # ss)))"

text \<open>Modelled from the spec: "return the intersection" of the document-ID sets.\<close>

fun inter_all :: "'a list list \<Rightarrow> 'a list" where
  "inter_all [] = []"
| "inter_all [s] = s"
| "inter_all (s # ss) = filter (\<lambda>x. x \<in> set (inter_all ss)) s"

text \<open>Modelled from the spec: \<open>BooleanSearch\<close> of sections 4.2 and 6. The documents of the
  match set are returned "in \<open>doc_id\<close> order (deterministic tie-break by ascending insertion
  order)": a stable sort of the documents in insertion order.\<close>

definition BooleanSearch :: "(string \<Rightarrow> string list) \<Rightarrow> engine \<Rightarrow> string \<Rightarrow> search_error + boolean_hit list" where
  "BooleanSearch tok eng q =
     (if \<not> valid_query tok q then Inl InvalidQuery
      else
        (case posting_sets (index eng) (query_terms tok q) of
           None \<Rightarrow> Inr []
         | Some ss \<Rightarrow>
             Inr (map boolean_hit
                    (sort_key doc_id
                       (filter (\<lambda>d. doc_id d \<in> set (inter_all ss)) (documents eng))))))"

subsection \<open>Proximity search\<close>

text \<open>Modelled from the spec: a Proximity result, \<open>{doc_id, title, distance}\<close>
  (section 6).\<close>

datatype proximity_hit =
  ProximityHit (prox_doc_id: string) (prox_title: string) (prox_distance: nat)

text \<open>Modelled from the spec: \<open>|p1 - p2|\<close> on token positions.\<close>

definition gap :: "nat \<Rightarrow> nat \<Rightarrow> nat" where
  "gap x y = (if x \<le> y then y - x else x - y)"

text \<open>Modelled from the spec: "every pair of positions \<open>p1\<close> (from term1) and \<open>p2\<close> (from
  term2)"; when the two terms are the same term (\<open>same\<close>), the pair of an occurrence with
  itself is left out (the degenerate case of section 4.5, and section 9).\<close>

definition position_pairs :: "bool \<Rightarrow> nat list \<Rightarrow> nat list \<Rightarrow> (nat \<times> nat) list" where
  "position_pairs same ps1 ps2 =
     concat (map (\<lambda>x. map (\<lambda>y. (x, y)) (filter (\<lambda>y. \<not> same \<or> x \<noteq> y) ps2)) ps1)"

text \<open>Modelled from the spec: \<open>min(|p1 - p2|)\<close> over the pairs; \<open>None\<close> when there is no
  pair.\<close>

definition min_distance :: "bool \<Rightarrow> nat list \<Rightarrow> nat list \<Rightarrow> nat option" where
  "min_distance same ps1 ps2 =
     (case map (\<lambda>(x, y). gap x y) (position_pairs same ps1 ps2) of
        [] \<Rightarrow> None
      | g # gs \<Rightarrow> Some (fold min gs g))"

text \<open>Modelled from the spec: the title that a result carries, read from the engine's
  documents.\<close>

definition title_of :: "engine \<Rightarrow> string \<Rightarrow> string" where
  "title_of eng d = (case find (\<lambda>x. doc_id x = d) (documents eng) of None \<Rightarrow> [] | Some x \<Rightarrow> title x)"

text \<open>Modelled from the spec: "for each document present in both" posting lists, "include
  the document if this minimum distance is \<open>\<le> k\<close>" (section 4.5); \<open>p1\<close> is walked, \<open>p2\<close>
  is searched.\<close>

fun proximity_hits :: "engine \<Rightarrow> bool \<Rightarrow> int \<Rightarrow> posting list \<Rightarrow> posting list \<Rightarrow> proximity_hit list" where
  "proximity_hits eng same k p2 [] = []"
| "proximity_hits eng same k p2 ((d, ps1) # rest) =
     (case map_of p2 d of
        None \<Rightarrow> proximity_hits eng same k p2 rest
      | Some ps2 \<Rightarrow>
          (case min_distance same ps1 ps2 of
             None \<Rightarrow> proximity_hits eng same k p2 rest
           | Some m \<Rightarrow>
               if int m \<le> k
               then ProximityHit d (title_of eng d) m # proximity_hits eng same k p2 rest
               else proximity_hits eng same k p2 rest))"

text \<open>Modelled from the spec: \<open>ProximitySearch\<close> of sections 4.5 and 6: a non-positive
  \<open>k\<close> or a missing term is an InvalidQuery (section 7); a term absent from the dictionary
  gives the empty result; the output is "ordered by ascending minimum distance, then
  ascending \<open>doc_id\<close>".\<close>

definition ProximitySearch :: "engine \<Rightarrow> string \<Rightarrow> string \<Rightarrow> int \<Rightarrow> search_error + proximity_hit list" where
  "ProximitySearch eng t1 t2 k =
     (if k \<le> 0 \<or> t1 = [] \<or> t2 = [] then Inl InvalidQuery
      else
        (case termId (index eng) t1 of
           None \<Rightarrow> Inr []
         | Some a \<Rightarrow>
             (case termId (index eng) t2 of
                None \<Rightarrow> Inr []
              | Some b \<Rightarrow>
                  Inr (sort_key (\<lambda>h. (prox_distance h, prox_doc_id h))
                         (proximity_hits eng (t1 = t2) k
                            (postings_of (index eng) b) (postings_of (index eng) a))))))"

subsection \<open>Vector and BM25 search\<close>

text \<open>
  Scores are real numbers: the logarithm and the square root are the mathematical ones,
  not their floating-point approximations.
\<close>

text \<open>Modelled from the spec: a ranked result, \<open>{doc_id, title, score}\<close> (section 6).\<close>

datatype ranked_hit =
  RankedHit (ranked_doc_id: string) (ranked_title: string) (score: real)

text \<open>Modelled from the spec: \<open>tf(t,d)\<close>, the "raw occurrence count" (section 4.3), read
  from the term's posting for the document.\<close>

definition term_frequency :: "index \<Rightarrow> nat \<Rightarrow> string \<Rightarrow> nat" where
  "term_frequency idx tid d =
     (case map_of (postings_of idx tid) d of None \<Rightarrow> 0 | Some ps \<Rightarrow> length ps)"

text \<open>Modelled from the spec: \<open>idf(t) = ln(N / df(t))\<close> (section 4.3).\<close>

definition idf :: "engine \<Rightarrow> nat \<Rightarrow> real" where
  "idf eng tid =
     ln (real (length (documents eng)) / real (documentFrequency (index eng) tid))"

text \<open>Modelled from the spec: the document vector weight \<open>tf(t,d) * idf(t)\<close>.\<close>

definition tfidf_weight :: "engine \<Rightarrow> string \<Rightarrow> nat \<Rightarrow> real" where
  "tfidf_weight eng d tid = real (term_frequency (index eng) tid d) * idf eng tid"

text \<open>Modelled from the spec: a row of the TF-IDF matrix (section 3), "a sparse mapping
  from \<open>term_id\<close> to TF-IDF weight ... present only for terms with at least one
  occurrence".\<close>

definition tfidf_row :: "engine \<Rightarrow> string \<Rightarrow> (nat \<times> real) list" where
  "tfidf_row eng d =
     map (\<lambda>tid. (tid, tfidf_weight eng d tid))
       (filter (\<lambda>tid. 0 < term_frequency (index eng) tid d) [0..<length (terms (index eng))])"

text \<open>Modelled from the spec: the L2 norm of a weighted term vector.\<close>

definition l2_norm :: "(nat \<times> real) list \<Rightarrow> real" where
  "l2_norm v = sqrt (sum_list (map (\<lambda>(tid, w). w * w) v))"

text \<open>Modelled from the spec: the query terms that have a dictionary entry; "terms absent
  from the corpus contribute zero weight to the query vector and are ignored".\<close>

fun known_terms :: "index \<Rightarrow> string list \<Rightarrow> (string \<times> nat) list" where
  "known_terms idx [] = []"
| "known_terms idx (t # ts) =
     (case termId idx t of
        None \<Rightarrow> known_terms idx ts
      | Some tid \<Rightarrow> (t, tid) # known_terms idx ts)"

text \<open>Modelled from the spec: the query vector weight \<open>tf(t,query) * idf(t)\<close>.\<close>

definition query_vector :: "(string \<Rightarrow> string list) \<Rightarrow> engine \<Rightarrow> string \<Rightarrow> (nat \<times> real) list" where
  "query_vector tok eng q =
     map (\<lambda>(t, tid). (tid, real (count_list (tok q) t) * idf eng tid))
       (known_terms (index eng) (query_terms tok q))"

text \<open>Modelled from the spec: cosine similarity, "dot product of query and document
  vectors divided by the product of their L2 norms"; a zero norm gives the score 0, which
  excludes the document.\<close>

definition cosine :: "(nat \<times> real) list \<Rightarrow> (nat \<times> real) list \<Rightarrow> real" where
  "cosine qv dv =
     (if l2_norm qv = 0 \<or> l2_norm dv = 0 then 0
      else sum_list (map (\<lambda>(tid, w). w * (case map_of dv tid of None \<Rightarrow> 0 | Some x \<Rightarrow> x)) qv)
             / (l2_norm qv * l2_norm dv))"

text \<open>Modelled from the spec: the score of \<open>(query, d)\<close> in the vector model.\<close>

definition vector_score :: "(string \<Rightarrow> string list) \<Rightarrow> engine \<Rightarrow> string \<Rightarrow> document \<Rightarrow> real" where
  "vector_score tok eng q d = cosine (query_vector tok eng q) (tfidf_row eng (doc_id d))"

text \<open>Modelled from the spec: the ranking policy of sections 4.3 and 4.4: "documents with
  zero score are excluded", "descending score; ties broken by ascending \<open>doc_id\<close>", "result
  size bounded by requested \<open>top_k\<close>".\<close>

definition rank :: "int \<Rightarrow> (document \<Rightarrow> real) \<Rightarrow> document list \<Rightarrow> ranked_hit list" where
  "rank top_k sc docs =
     take (nat top_k)
       (sort_key (\<lambda>h. (- score h, ranked_doc_id h))
          (map (\<lambda>d. RankedHit (doc_id d) (title d) (sc d)) (filter (\<lambda>d. 0 < sc d) docs)))"

text \<open>Modelled from the spec: \<open>VectorSearch\<close> of sections 4.3 and 6; a non-positive
  \<open>top_k\<close> and a query without a term are an InvalidQuery (section 7).\<close>

definition VectorSearch :: "(string \<Rightarrow> string list) \<Rightarrow> engine \<Rightarrow> string \<Rightarrow> int \<Rightarrow> search_error + ranked_hit list" where
  "VectorSearch tok eng q top_k =
     (if top_k \<le> 0 \<or> \<not> valid_query tok q then Inl InvalidQuery
      else Inr (rank top_k (vector_score tok eng q) (documents eng)))"

text \<open>Modelled from the spec: the BM25 parameters \<open>k1\<close> "(saturation, default 1.5)" and
  \<open>b\<close> "(length normalization, default 0.75)" of section 4.4.\<close>

definition bm25_k1 :: real where
  "bm25_k1 = 3 / 2"

definition bm25_b :: real where
  "bm25_b = 3 / 4"

text \<open>Modelled from the spec: \<open>avgdl\<close>, "the corpus average document length".\<close>

definition avgdl :: "engine \<Rightarrow> real" where
  "avgdl eng =
     real (sum_list (map (\<lambda>d. length (tokens d)) (documents eng))) / real (length (documents eng))"

text \<open>Modelled from the spec: \<open>idf(t) = ln((N - df(t) + 0.5) / (df(t) + 0.5) + 1)\<close>.\<close>

definition bm25_idf :: "engine \<Rightarrow> nat \<Rightarrow> real" where
  "bm25_idf eng tid =
     ln ((real (length (documents eng)) - real (documentFrequency (index eng) tid) + 1 / 2)
           / (real (documentFrequency (index eng) tid) + 1 / 2) + 1)"

text \<open>Modelled from the spec: the score contribution
  \<open>idf(t) * (f(t,d) * (k1+1)) / (f(t,d) + k1 * (1 - b + b * |d| / avgdl))\<close> of a query term
  present in the document; an absent term contributes nothing.\<close>

definition bm25_contribution :: "engine \<Rightarrow> document \<Rightarrow> nat \<Rightarrow> real" where
  "bm25_contribution eng d tid =
     (let f = real (term_frequency (index eng) tid (doc_id d)) in
      if f = 0 then 0
      else bm25_idf eng tid * (f * (bm25_k1 + 1))
             / (f + bm25_k1 * (1 - bm25_b + bm25_b * real (length (tokens d)) / avgdl eng)))"

text \<open>Modelled from the spec: "document score is the sum of contributions over query terms
  actually present in the document".\<close>

definition bm25_score :: "(string \<Rightarrow> string list) \<Rightarrow> engine \<Rightarrow> string \<Rightarrow> document \<Rightarrow> real" where
  "bm25_score tok eng q d =
     sum_list (map (\<lambda>(t, tid). bm25_contribution eng d tid)
                 (known_terms (index eng) (query_terms tok q)))"

text \<open>Modelled from the spec: \<open>Bm25Search\<close> of sections 4.4 and 6, "ranking and \<open>top_k\<close>
  truncation identical in policy" to the vector search.\<close>

definition Bm25Search :: "(string \<Rightarrow> string list) \<Rightarrow> engine \<Rightarrow> string \<Rightarrow> int \<Rightarrow> search_error + ranked_hit list" where
  "Bm25Search tok eng q top_k =
     (if top_k \<le> 0 \<or> \<not> valid_query tok q then Inl InvalidQuery
      else Inr (rank top_k (bm25_score tok eng q) (documents eng)))"

subsection \<open>Multi-model orchestration\<close>

text \<open>Modelled from the spec: what the orchestrator reports for one model: its result set,
  or "an explicit per-model error marker" (section 7).\<close>

datatype 'a model_outcome = ModelResults 'a | ModelError string

text \<open>Modelled from the spec: the mapping \<open>{"vector": ..., "bm25": ..., "boolean": ...}\<close>
  of section 6. The processing times of section 4.6 are left out.\<close>

record multi_response =
  vector :: "ranked_hit list model_outcome"
  bm25 :: "ranked_hit list model_outcome"
  boolean :: "boolean_hit list model_outcome"

text \<open>Modelled from the spec: "isolate failures per sub-query; report a per-model error":
  the outcome of one sub-query, whose evaluation ended in an error message (\<open>Inl\<close>) or in
  results.\<close>

definition isolate :: "string + 'a \<Rightarrow> 'a model_outcome" where
  "isolate r = (case r of Inl message \<Rightarrow> ModelError message | Inr hits \<Rightarrow> ModelResults hits)"

text \<open>Modelled from the spec: \<open>MultiSearch\<close> of sections 4.6 and 6. The spec does not say
  what makes a sub-model fail, so the three evaluations are parameters: each returns an
  error message or its results. A non-positive \<open>top_k\<close> and a query without a term are an
  InvalidQuery of the whole call (section 7).\<close>

definition MultiSearch ::
  "(string \<Rightarrow> int \<Rightarrow> string + ranked_hit list) \<Rightarrow> (string \<Rightarrow> int \<Rightarrow> string + ranked_hit list) \<Rightarrow>
   (string \<Rightarrow> string + boolean_hit list) \<Rightarrow> (string \<Rightarrow> string list) \<Rightarrow> string \<Rightarrow> int \<Rightarrow>
   search_error + multi_response" where
  "MultiSearch run_vector run_bm25 run_boolean tok q top_k =
     (if top_k \<le> 0 \<or> \<not> valid_query tok q then Inl InvalidQuery
      else Inr \<lparr>vector = isolate (run_vector q top_k),
                bm25 = isolate (run_bm25 q top_k),
                boolean = isolate (run_boolean q)\<rparr>)"

text \<open>Modelled from the spec: the evaluation of one of the engine's own models as a
  sub-query: its error, if any, reported as a message.\<close>

definition run_model :: "search_error + 'a \<Rightarrow> string + 'a" where
  "run_model r = (case r of Inl e \<Rightarrow> Inl ''invalid query'' | Inr hits \<Rightarrow> Inr hits)"

subsection \<open>The scenario of section 8\<close>

text \<open>A tokenizer for the examples: the words between blanks. The engine does not depend
  on it.\<close>

fun split_words :: "string \<Rightarrow> string \<Rightarrow> string list" where
  "split_words acc [] = (if acc = [] then [] else [acc])"
| "split_words acc (c # cs) =
     (if c = CHR '' '' then (if acc = [] then split_words [] cs else acc # split_words [] cs)
      else split_words (acc @ [c]) cs)"

definition whitespace_tokenizer :: "string \<Rightarrow> string list" where
  "whitespace_tokenizer q = split_words [] q"

text \<open>Modelled from the spec: the corpus of the concrete scenario of section 8, with
  titles and file names added.\<close>

definition scenario :: "document list" where
  "scenario =
     [\<lparr>doc_id = ''doc1'', title = ''Trial'', filename = ''doc1.json'',
       tokens = [''covid'', ''vaccine'', ''trial'']\<rparr>,
      \<lparr>doc_id = ''doc2'', title = ''Safety'', filename = ''doc2.json'',
       tokens = [''vaccine'', ''safety'', ''study'']\<rparr>,
      \<lparr>doc_id = ''doc3'', title = ''Options'', filename = ''doc3.json'',
       tokens = [''covid'', ''treatment'', ''options'']\<rparr>]"

definition scenario_engine :: engine where
  "scenario_engine = \<lparr>documents = scenario, index = index_documents scenario\<rparr>"

subsection \<open>Notions that the properties are stated with\<close>

text \<open>The postings of a term, through the dictionary.\<close>

definition term_postings :: "index \<Rightarrow> string \<Rightarrow> posting list" where
  "term_postings idx t = (case termId idx t of None \<Rightarrow> [] | Some tid \<Rightarrow> postings_of idx tid)"

text \<open>The positions of a term in a raw token sequence, independent of the index.\<close>

definition occurrences :: "string \<Rightarrow> string list \<Rightarrow> nat list" where
  "occurrences t ts = [i \<leftarrow> [0..<length ts]. ts ! i = t]"

text \<open>The positions that the pass records for a term, counting from \<open>i\<close>.\<close>

fun positions_from :: "nat \<Rightarrow> string \<Rightarrow> string list \<Rightarrow> nat list" where
  "positions_from i t [] = []"
| "positions_from i t (x # xs) = (if x = t then [i] else []) @ positions_from (Suc i) t xs"

text \<open>The dictionary and the list of terms agree: the invariant of the pass.\<close>

definition wf_index :: "index \<Rightarrow> bool" where
  "wf_index idx \<longleftrightarrow>
     (\<forall>t tid. term_ids idx t = Some tid \<longrightarrow> tid < length (terms idx) \<and> terms idx ! tid = t)"

text \<open>The postings that a term must have after the documents were indexed: one posting
  per document that contains it, in insertion order, with all its positions.\<close>

definition expected_postings :: "document list \<Rightarrow> string \<Rightarrow> posting list" where
  "expected_postings docs t =
     map (\<lambda>d. (doc_id d, occurrences t (tokens d))) (filter (\<lambda>d. t \<in> set (tokens d)) docs)"

text \<open>\<open>i\<close> and \<open>j\<close> are positions of \<open>t1\<close> and \<open>t2\<close> in the token sequence; for one and the
  same term they are two occurrences.\<close>

definition occurs_pair :: "string \<Rightarrow> string \<Rightarrow> string list \<Rightarrow> nat \<Rightarrow> nat \<Rightarrow> bool" where
  "occurs_pair t1 t2 ts i j \<longleftrightarrow>
     i < length ts \<and> j < length ts \<and> ts ! i = t1 \<and> ts ! j = t2 \<and> (t1 = t2 \<longrightarrow> i \<noteq> j)"

text \<open>The order of a ranked list: higher score first, equal scores by ascending
  \<open>doc_id\<close>.\<close>

definition ranked_before :: "ranked_hit \<Rightarrow> ranked_hit \<Rightarrow> bool" where
  "ranked_before x y \<longleftrightarrow>
     score y < score x \<or> (score x = score y \<and> ranked_doc_id x \<le> ranked_doc_id y)"

section \<open>Properties of strings\<close>

text \<open>\<open>str\<close> is injective: two literals of the source are equal as JavaScript strings
  exactly when they are the same text.\<close>

lemma of_char_word_eq: "(of_char c :: 16 word) = of_char d \<longleftrightarrow> c = d"
proof
  assume "(of_char c :: 16 word) = of_char d"
  then have "unat (of_char c :: 16 word) = unat (of_char d :: 16 word)" by simp
  moreover have "\<And>x. unat (of_char x :: 16 word) = of_char x"
  proof -
    fix x :: char
    have eq: "(of_char x :: 16 word) = of_nat (of_char x)" by (simp add: of_nat_of_char)
    moreover have "(of_char x :: nat) < 2 ^ 16"
    proof -
      have "(of_char x :: nat) < 256" by (rule nat_of_char_less_256)
      moreover have "(256 :: nat) \<le> 2 ^ 16" by simp
      ultimately show ?thesis by (rule less_le_trans)
    qed
    ultimately have "unat (of_nat (of_char x) :: 16 word) = of_char x"
      by (intro of_nat_inverse) simp_all
    then show "unat (of_char x :: 16 word) = of_char x"
      by (simp only: eq [symmetric])
  qed
  ultimately show "c = d" by simp
qed simp

lemma str_eq_iff: "str a = str b \<longleftrightarrow> a = b"
  unfolding str_def by (simp add: inj_map_eq_map inj_on_def of_char_word_eq)

lemma str_Nil_iff: "str s = [] \<longleftrightarrow> s = []"
  by (simp add: str_def)

section \<open>Properties of \<open>handleSearch\<close> and \<open>handleSubmit\<close>\<close>

text \<open>\<open>s.trim()\<close> is the empty string exactly when \<open>s\<close> is empty or all white space.\<close>

lemma trim_empty_iff: "trim s = [] \<longleftrightarrow> (\<forall>c\<in>set s. is_whitespace c)"
proof
  assume "trim s = []"
  then have all: "\<forall>c\<in>set (dropWhile is_whitespace s). is_whitespace c"
    by (simp add: trim_def dropWhile_eq_Nil_conv)
  show "\<forall>c\<in>set s. is_whitespace c"
  proof (cases "dropWhile is_whitespace s")
    case Nil
    then show ?thesis by (simp add: dropWhile_eq_Nil_conv)
  next
    case (Cons h t)
    then have "\<not> is_whitespace h" using hd_dropWhile [of is_whitespace s] by simp
    moreover have "h \<in> set (dropWhile is_whitespace s)" using Cons by simp
    ultimately show ?thesis using all by blast
  qed
next
  assume "\<forall>c\<in>set s. is_whitespace c"
  then have "dropWhile is_whitespace s = []" by (simp add: dropWhile_eq_Nil_conv)
  then show "trim s = []" unfolding trim_def by (simp only: rev.simps dropWhile.simps)
qed

lemma parseInt_or_5_nonzero: "parseInt_or_5 s \<noteq> Some 0"
  by (simp add: parseInt_or_5_def split: parsed.splits)

text \<open>
  Claim C5. When the options carry no \<open>top_k\<close> (the options are \<open>undefined\<close>, or have no
  such property), the request that \<open>handleSearch\<close> sends for \<open>vector\<close>, \<open>bm25\<close> and
  \<open>multi\<close> carries \<open>top_k = 5\<close>; when they carry no \<open>k\<close>, the request for
  \<open>proximity\<close> carries \<open>k = 5\<close>.
\<close>

theorem handleSearch_defaults:
  "((m = str ''vector'' \<or> m = str ''bm25'' \<or> m = str ''multi'') \<and>
      opt_get options (str ''top_k'') = Undefined \<longrightarrow>
      get (body (fst (handleSearch env st q m options))) (str ''top_k'') = Inr (Num 5)) \<and>
   (m = str ''proximity'' \<and> opt_get options (str ''k'') = Undefined \<longrightarrow>
      get (body (fst (handleSearch env st q m options))) (str ''k'') = Inr (Num 5))"
  by (auto simp: handleSearch_def search_request_def endpoint_payload_def or_else_def str_def Let_def)

theorem handleSearch_defaults_witness:
  "get (body (fst (handleSearch (\<lambda>r. Rejects) initial_page (str ''covid'') (str ''bm25'') Undefined)))
     (str ''top_k'') = Inr (Num 5) \<and>
   get (body (fst (handleSearch (\<lambda>r. Rejects) initial_page (str ''covid'') (str ''proximity'')
     (Obj [(str ''term1'', Str (str ''covid'')), (str ''term2'', Str (str ''vaccine''))]))))
     (str ''k'') = Inr (Num 5)"
proof -
  have h1: "opt_get Undefined (str ''top_k'') = Undefined"
    by (simp add: opt_get_def)
  have h2: "opt_get (Obj [(str ''term1'', Str (str ''covid'')), (str ''term2'', Str (str ''vaccine''))])
              (str ''k'') = Undefined"
    by (simp add: opt_get_def str_def)
  show ?thesis
    using h1 h2
      handleSearch_defaults [of "str ''bm25''" Undefined "\<lambda>r. Rejects" initial_page "str ''covid''"]
      handleSearch_defaults [of "str ''proximity''"
        "Obj [(str ''term1'', Str (str ''covid'')), (str ''term2'', Str (str ''vaccine''))]"
        "\<lambda>r. Rejects" initial_page "str ''covid''"]
    by simp
qed

text \<open>
  Claim C9. For a method string that is none of \<open>boolean\<close>, \<open>vector\<close>, \<open>bm25\<close>,
  \<open>proximity\<close> and \<open>multi\<close>, \<open>handleSearch\<close> posts the query to the vector endpoint
  with \<open>top_k = 5\<close>, whatever the options say.
\<close>

theorem handleSearch_unknown_method:
  assumes "m \<noteq> str ''boolean''" and "m \<noteq> str ''vector''" and "m \<noteq> str ''bm25''"
    and "m \<noteq> str ''proximity''" and "m \<noteq> str ''multi''"
  shows "fst (handleSearch env st q m options) =
           \<lparr>url = str ''http://localhost:5002/api/search/vector'',
            http_method = str ''POST'',
            content_type = str ''application/json'',
            body = Obj [(str ''query'', Str q), (str ''top_k'', Num 5)]\<rparr>"
  using assms
  by (simp add: handleSearch_def search_request_def endpoint_payload_def Let_def) (simp add: str_def)

theorem handleSearch_unknown_method_witness:
  "fst (handleSearch (\<lambda>r. Rejects) initial_page (str ''covid'') (str ''fuzzy'')
          (Obj [(str ''top_k'', Num 9)])) =
     \<lparr>url = str ''http://localhost:5002/api/search/vector'',
      http_method = str ''POST'',
      content_type = str ''application/json'',
      body = Obj [(str ''query'', Str (str ''covid'')), (str ''top_k'', Num 5)]\<rparr>"
proof -
  have h: "str ''fuzzy'' \<noteq> str ''boolean''" "str ''fuzzy'' \<noteq> str ''vector''"
    "str ''fuzzy'' \<noteq> str ''bm25''" "str ''fuzzy'' \<noteq> str ''proximity''"
    "str ''fuzzy'' \<noteq> str ''multi''"
    by (simp_all add: str_def)
  show ?thesis by (rule handleSearch_unknown_method [OF h])
qed

text \<open>
  Claim C10. After an invocation of \<open>handleSearch\<close> has completed, \<open>isLoading\<close> is
  false; and when \<open>fetch\<close> rejected or the response was not \<open>ok\<close>, \<open>searchResults\<close> is
  \<open>null\<close>, whatever it held before, and the page shows no results component.
\<close>

theorem handleSearch_finally:
  "isLoading (snd (handleSearch env st q m options)) = False \<and>
   (env (fst (handleSearch env st q m options)) = Rejects \<or>
    (\<exists>status data. env (fst (handleSearch env st q m options)) = Resolves False status data)
      \<longrightarrow> searchResults (snd (handleSearch env st q m options)) = Null \<and>
          search_tab (snd (handleSearch env st q m options)) = None)"
  by (auto simp: handleSearch_def search_tab_def Let_def split: fetch_result.splits option.splits)

theorem handleSearch_finally_witness:
  "isLoading (snd (handleSearch (\<lambda>r. Resolves False 500 None)
      \<lparr>searchResults = Obj [(str ''method'', Str (str ''Boolean Search''))], isLoading = False,
       activeTab = str ''search''\<rparr> (str ''covid'') (str ''boolean'') (Obj []))) = False \<and>
   searchResults (snd (handleSearch (\<lambda>r. Resolves False 500 None)
      \<lparr>searchResults = Obj [(str ''method'', Str (str ''Boolean Search''))], isLoading = False,
       activeTab = str ''search''\<rparr> (str ''covid'') (str ''boolean'') (Obj []))) = Null \<and>
   search_tab (snd (handleSearch (\<lambda>r. Resolves False 500 None)
      \<lparr>searchResults = Obj [(str ''method'', Str (str ''Boolean Search''))], isLoading = False,
       activeTab = str ''search''\<rparr> (str ''covid'') (str ''boolean'') (Obj []))) = None"
  using handleSearch_finally [of "\<lambda>r. Resolves False 500 None"
      "\<lparr>searchResults = Obj [(str ''method'', Str (str ''Boolean Search''))], isLoading = False,
       activeTab = str ''search''\<rparr>" "str ''covid''" "str ''boolean''" "Obj []"]
  by blast

text \<open>
  Claim C6. When the query is empty or all white space, and when the method is
  \<open>proximity\<close> and \<open>term1\<close> or \<open>term2\<close> is empty or all white space, \<open>handleSubmit\<close>
  returns without calling \<open>onSearch\<close>, so no request is sent, and the submit button is
  disabled. \<open>handleSubmit\<close> is a total function: it has no failing branch.
\<close>

theorem handleSubmit_rejects:
  "((\<forall>c\<in>set (query f). is_whitespace c) \<longrightarrow>
      handleSubmit f = None \<and> submit env st f = None \<and> submit_disabled loading f) \<and>
   (method' f = str ''proximity'' \<and>
      ((\<forall>c\<in>set (term1 f). is_whitespace c) \<or> (\<forall>c\<in>set (term2 f). is_whitespace c)) \<longrightarrow>
      handleSubmit f = None \<and> submit env st f = None \<and> submit_disabled loading f)"
  by (auto simp: handleSubmit_def submit_def submit_disabled_def trim_empty_iff str_def)

theorem handleSubmit_rejects_witness:
  "handleSubmit (setQuery (str ''  '') initial_form) = None \<and>
   submit (\<lambda>r. Rejects) initial_page (setQuery (str ''  '') initial_form) = None \<and>
   submit_disabled False (setQuery (str ''  '') initial_form) \<and>
   handleSubmit (setTerm1 (str ''covid'') (setMethod (str ''proximity'')
      (setQuery (str ''covid'') initial_form))) = None \<and>
   submit (\<lambda>r. Rejects) initial_page (setTerm1 (str ''covid'') (setMethod (str ''proximity'')
      (setQuery (str ''covid'') initial_form))) = None \<and>
   submit_disabled False (setTerm1 (str ''covid'') (setMethod (str ''proximity'')
      (setQuery (str ''covid'') initial_form)))"
proof -
  let ?f1 = "setQuery (str ''  '') initial_form"
  let ?f2 = "setTerm1 (str ''covid'') (setMethod (str ''proximity'')
      (setQuery (str ''covid'') initial_form))"
  have h1: "\<forall>c\<in>set (query ?f1). is_whitespace c"
    by (simp add: setQuery_def initial_form_def str_def is_whitespace_def)
  have h2: "method' ?f2 = str ''proximity'' \<and>
      ((\<forall>c\<in>set (term1 ?f2). is_whitespace c) \<or> (\<forall>c\<in>set (term2 ?f2). is_whitespace c))"
    by (simp add: setQuery_def setMethod_def setTerm1_def initial_form_def)
  show ?thesis
    using h1 h2 handleSubmit_rejects [of ?f1 "\<lambda>r. Rejects" initial_page False]
      handleSubmit_rejects [of ?f2 "\<lambda>r. Rejects" initial_page False]
    by blast
qed

text \<open>
  The frontend rejects no number. \<open>handleSearch\<close> replaces a falsy \<open>top_k\<close> or \<open>k\<close>
  (\<open>0\<close>, or none) by the default 5, so every request for \<open>vector\<close>, \<open>bm25\<close> and
  \<open>multi\<close> carries a truthy \<open>top_k\<close> and every request for \<open>proximity\<close> a truthy
  \<open>k\<close>; and the two number inputs store \<open>parseInt(text) || 5\<close>, which is never \<open>0\<close>.
\<close>

lemma zero_top_k_replaced:
  "((m = str ''vector'' \<or> m = str ''bm25'' \<or> m = str ''multi'') \<longrightarrow>
      (\<exists>v. get (body (fst (handleSearch env st q m options))) (str ''top_k'') = Inr v \<and> truthy v \<and>
           (\<not> truthy (opt_get options (str ''top_k'')) \<longrightarrow> v = Num 5))) \<and>
   (m = str ''proximity'' \<longrightarrow>
      (\<exists>v. get (body (fst (handleSearch env st q m options))) (str ''k'') = Inr v \<and> truthy v \<and>
           (\<not> truthy (opt_get options (str ''k'')) \<longrightarrow> v = Num 5))) \<and>
   (\<forall>f'. onTopKChange input f = Some f' \<longrightarrow> topK f' \<noteq> 0) \<and>
   (\<forall>f'. onProximityKChange input f = Some f' \<longrightarrow> proximityK f' \<noteq> 0)"
proof -
  have "n \<noteq> 0" if "parseInt_or_5 input = Some n" for n
    using that parseInt_or_5_nonzero [of input] by auto
  then show ?thesis
    by (auto simp: handleSearch_def search_request_def endpoint_payload_def or_else_def Let_def
        onTopKChange_def onProximityKChange_def str_def)
qed

text \<open>\<open>parseInt\<close> on some inputs: a prefix of digits counts, \<open>-0\<close> is zero, \<open>0x\<close>
  selects radix 16, and 2^53 + 1 is beyond the integers that the model follows.\<close>

lemma parseInt_examples:
  "parseInt (str '' 42px'') = Exact 42"
  "parseInt (str ''-0'') = Exact 0"
  "parseInt (str ''0x1F'') = Exact 31"
  "parseInt (str ''abc'') = NaN"
  "parseInt (str ''9007199254740992'') = Exact 9007199254740992"
  "parseInt (str ''9007199254740993'') = Inexact"
  by (simp_all add: parseInt_def str_def is_whitespace_def digit_of_def)

text \<open>
  A negative number is truthy: typed into the Top-K input it is stored, passed on by
  \<open>handleSubmit\<close> and sent by \<open>handleSearch\<close> as it is. (The input declares
  \<open>min="1"\<close>; nothing in the handlers enforces it.)
\<close>

lemma parseInt_minus_3: "parseInt (str ''-3'') = Exact (- 3)"
  by (simp add: parseInt_def str_def is_whitespace_def digit_of_def)

theorem negative_top_k_is_forwarded:
  "Option.bind (onTopKChange (str ''-3'') (setQuery (str ''covid'') initial_form))
      (submit (\<lambda>r. Rejects) initial_page) =
     Some (\<lparr>url = str ''http://localhost:5002/api/search/vector'',
            http_method = str ''POST'',
            content_type = str ''application/json'',
            body = Obj [(str ''query'', Str (str ''covid'')), (str ''top_k'', Num (- 3))]\<rparr>,
           \<lparr>searchResults = Null, isLoading = False, activeTab = str ''search''\<rparr>)"
proof -
  have f: "onTopKChange (str ''-3'') (setQuery (str ''covid'') initial_form) =
      Some \<lparr>query = str ''covid'', method' = str ''vector'', topK = - 3, term1 = [], term2 = [],
            proximityK = 5\<rparr>"
    by (simp add: onTopKChange_def setQuery_def initial_form_def parseInt_or_5_def parseInt_minus_3)
  have t: "trim (str ''covid'') = str ''covid''"
    by (simp add: trim_def str_def is_whitespace_def)
  show ?thesis
    unfolding f
    by (simp add: submit_def handleSubmit_def t handleSearch_def search_request_def
        endpoint_payload_def or_else_def opt_get_def initial_page_def str_eq_iff str_Nil_iff)
       (simp add: str_def)
qed

text \<open>
  \<open>handleSubmit\<close> passes no options for \<open>multi\<close>: whatever the Top-K input holds, a
  multi-model search submitted from the form is sent with \<open>top_k = 5\<close>.
\<close>

theorem multi_submit_sends_default:
  assumes "method' f = str ''multi''" and "submit env st f = Some (req, st')"
  shows "body req = Obj [(str ''query'', Str (trim (query f))), (str ''top_k'', Num 5)]"
  using assms
  by (auto simp: submit_def handleSubmit_def handleSearch_def search_request_def
      endpoint_payload_def or_else_def opt_get_def str_eq_iff Let_def split: if_splits)

theorem multi_submit_sends_default_witness:
  "map_option (\<lambda>sent. body (fst sent))
      (Option.bind
         (onTopKChange (str ''9'') (setMethod (str ''multi'') (setQuery (str ''covid'') initial_form)))
         (submit (\<lambda>r. Rejects) initial_page)) =
     Some (Obj [(str ''query'', Str (str ''covid'')), (str ''top_k'', Num 5)])"
proof -
  let ?f = "\<lparr>query = str ''covid'', method' = str ''multi'', topK = 9, term1 = [], term2 = [],
            proximityK = 5\<rparr>"
  have p: "parseInt (str ''9'') = Exact 9"
    by (simp add: parseInt_def str_def is_whitespace_def digit_of_def)
  have f: "onTopKChange (str ''9'') (setMethod (str ''multi'') (setQuery (str ''covid'') initial_form)) =
      Some ?f"
    by (simp add: onTopKChange_def setMethod_def setQuery_def initial_form_def parseInt_or_5_def p)
  have m: "method' ?f = str ''multi''" and q: "query ?f = str ''covid''"
    by simp_all
  have t: "trim (str ''covid'') = str ''covid''"
    by (simp add: trim_def str_def is_whitespace_def)
  have "handleSubmit ?f = Some (str ''covid'', str ''multi'', Obj [])"
    by (simp add: handleSubmit_def t str_eq_iff str_Nil_iff)
  then obtain req st' where s: "submit (\<lambda>r. Rejects) initial_page ?f = Some (req, st')"
    by (simp add: submit_def) (metis surj_pair)
  from multi_submit_sends_default [OF m s] s show ?thesis
    unfolding f by (simp add: t)
qed

section \<open>Properties of \<open>SearchResults\<close>\<close>


lemma and_then_simps [simp]: "and_then (Inl e) f = Inl e" "and_then (Inr x) f = f x"
  by (simp_all add: and_then_def)

lemma length_is_0_simps [simp]:
  "length_is_0 (Arr xs) = Inr (xs = [])"
  "length_is_0 Null = Inl TypeError"
  "length_is_0 Undefined = Inl TypeError"
  by (simp_all add: length_is_0_def)

text \<open>\<open>toFixed(4)\<close> on some scores (each of them a double): the rounding goes to the
  nearest multiple of 0.0001, upwards from the middle; the sign of a negative number stays
  when it is rounded to zero.\<close>

lemma floor_rat_numeral:
  "\<lfloor>(numeral a :: rat) / numeral b\<rfloor> = numeral a div numeral b"
proof -
  have "\<lfloor>(of_int (numeral a) :: rat) / of_int (numeral b)\<rfloor> = numeral a div numeral b"
    by (rule floor_divide_of_int_eq)
  then show ?thesis by simp
qed

lemma nearest_examples:
  "nat \<lfloor>\<bar>1 / 8 :: rat\<bar> * 10000 + 1 / 2\<rfloor> = 1250"
  "nat \<lfloor>\<bar>- 5 / 2 :: rat\<bar> * 10000 + 1 / 2\<rfloor> = 25000"
  "nat \<lfloor>\<bar>1 / 32 :: rat\<bar> * 10000 + 1 / 2\<rfloor> = 313"
  "nat \<lfloor>\<bar>0 :: rat\<bar> * 10000 + 1 / 2\<rfloor> = 0"
  "nat \<lfloor>\<bar>- 1 / 65536 :: rat\<bar> * 10000 + 1 / 2\<rfloor> = 0"
  by (simp_all add: floor_rat_numeral)

lemma decimal_examples:
  "decimal 1250 = str ''1250''" "decimal 25000 = str ''25000''" "decimal 313 = str ''313''"
  "decimal 0 = str ''0''"
  by (simp_all add: decimal.simps str_def)

lemma toFixed4_examples:
  "toFixed4 (Num (1 / 8)) = Inr (Fixed (str ''0.1250''))"
  "toFixed4 (Num (- 5 / 2)) = Inr (Fixed (str ''-2.5000''))"
  "toFixed4 (Num (1 / 32)) = Inr (Fixed (str ''0.0313''))"
  "toFixed4 (Num 0) = Inr (Fixed (str ''0.0000''))"
  "toFixed4 (Num (- 1 / 65536)) = Inr (Fixed (str ''-0.0000''))"
  "toFixed4 (Str (str ''0.5'')) = Inl TypeError"
  unfolding toFixed4.simps fixed4_def Let_def nearest_examples decimal_examples
  by (simp_all add: str_def numeral_3_eq_3)

text \<open>A ranked response with one document, as the page shows it.\<close>

theorem vector_results_shown:
  "render (Obj [(str ''method'', Str (str ''TF-IDF Vector Search'')),
      (str ''query'', Str (str ''covid'')), (str ''top_k'', Num 5), (str ''results_count'', Num 1),
      (str ''processing_time'', Str (str ''0.001s'')),
      (str ''results'', Arr [Obj [(str ''doc_id'', Str (str ''doc1'')),
                                  (str ''title'', Str (str ''Trial'')),
                                  (str ''score'', Num (1 / 8))]])]) =
     Inr (SearchResultsCard (Str (str ''TF-IDF Vector Search'')) (Str (str ''covid''))
       (VectorResults (Num 1) (Num 5) (Str (str ''0.001s''))
          (Docs [ScoredDoc 1 (Str (str ''Trial'')) (Str (str ''doc1'')) (Fixed (str ''0.1250''))]
             None)))"
  by (simp add: render_def SearchResults_def renderResults_def renderVectorResults_def
      coerce_key_def toFixed4_examples str_eq_iff del: toFixed4.simps)

text \<open>An error value that is an object is truthy, so the component returns the error card;
  React cannot render the object, and nothing is shown.\<close>

theorem object_error_not_shown:
  "render (Obj [(str ''error'', Obj [(str ''code'', Num 1)])]) = Inl InvalidChild"
  by (simp add: render_def SearchResults_def)

text \<open>A \<open>doc_id\<close> that cannot be converted to a string makes the creation of the
  document's element throw.\<close>

theorem unconvertible_key_throws:
  "render (Obj [(str ''method'', Str (str ''Boolean Search'')), (str ''query'', Str (str ''covid'')),
      (str ''results'', Arr [Obj [(str ''doc_id'', Obj [(str ''toString'', Num 1)]),
                                  (str ''title'', Str (str ''Trial''))]])]) = Inl TypeError"
  by (simp add: render_def SearchResults_def renderResults_def renderBooleanResults_def
      coerce_key_def str_eq_iff)

text \<open>
  The multi-model view reads \<open>methodResults.results.length\<close> of every entry without a
  test for an error: an entry that carries only an error marker makes the whole call
  throw, and nothing is shown, the other two models' results included.
\<close>

theorem multi_error_marker_aborts:
  "render (Obj [(str ''method'', Str (str ''Multi-Model Search'')),
      (str ''query'', Str (str ''covid'')), (str ''top_k'', Num 5),
      (str ''results'', Obj [
         (str ''vector'', Obj [(str ''error'', Str (str ''vector model failed''))]),
         (str ''bm25'', Obj [(str ''results'', Arr []), (str ''results_count'', Num 0)]),
         (str ''boolean'', Obj [(str ''results'', Arr []), (str ''results_count'', Num 0)])])]) =
     Inl TypeError"
  by (simp add: render_def SearchResults_def renderResults_def renderMultiModelResults_def
      renderMultiSection_def length_is_0_def str_eq_iff)

text \<open>
  The views read \<open>results.results.length\<close> unguarded: a response whose \<open>results\<close> is
  \<open>null\<close> or absent is not shown as "no results", the call throws.
\<close>

theorem null_results_throw:
  "render (Obj [(str ''method'', Str (str ''Boolean Search'')),
      (str ''query'', Str (str ''covid'')), (str ''results'', Null)]) = Inl TypeError \<and>
   render (Obj [(str ''method'', Str (str ''TF-IDF Vector Search'')),
      (str ''query'', Str (str ''covid''))]) = Inl TypeError"
  by (simp add: render_def SearchResults_def renderResults_def renderBooleanResults_def
      renderVectorResults_def str_eq_iff)

section \<open>Properties of the index\<close>

lemma wf_empty_index: "wf_index empty_index"
  by (simp add: wf_index_def empty_index_def)

lemma add_token_wf:
  assumes "wf_index idx"
  shows "wf_index (add_token idx d i t)"
proof (cases "term_ids idx t")
  case None
  show ?thesis
    unfolding wf_index_def
  proof (intro allI impI)
    fix u tid
    assume a: "term_ids (add_token idx d i t) u = Some tid"
    show "tid < length (terms (add_token idx d i t)) \<and> terms (add_token idx d i t) ! tid = u"
    proof (cases "u = t")
      case True
      with a None show ?thesis by (auto simp: add_token_def)
    next
      case False
      with a None have "term_ids idx u = Some tid" by (simp add: add_token_def)
      with assms have "tid < length (terms idx)" "terms idx ! tid = u"
        by (auto simp: wf_index_def)
      with None show ?thesis by (simp add: add_token_def nth_append)
    qed
  qed
next
  case (Some tid)
  with assms show ?thesis by (simp add: wf_index_def add_token_def)
qed

lemma add_token_termId:
  "termId (add_token idx d i t) u = None \<longleftrightarrow> termId idx u = None \<and> u \<noteq> t"
  by (auto simp: termId_def add_token_def split: option.splits)

lemma add_token_postings:
  assumes "wf_index idx"
  shows "term_postings (add_token idx d i t) u =
           (if u = t then record_position d i (term_postings idx t) else term_postings idx u)"
proof (cases "term_ids idx t")
  case None
  then show ?thesis
    using assms
    by (auto simp: wf_index_def term_postings_def termId_def postings_of_def add_token_def
        split: option.splits)
next
  case (Some tid)
  have "tid' \<noteq> tid" if "term_ids idx u = Some tid'" "u \<noteq> t" for tid'
    using assms Some that by (auto simp: wf_index_def)
  then show ?thesis
    using Some
    by (auto simp: term_postings_def termId_def postings_of_def add_token_def
        split: option.splits)
qed

lemma add_tokens_wf: "wf_index idx \<Longrightarrow> wf_index (add_tokens idx d i ts)"
  by (induction ts arbitrary: idx i) (simp_all add: add_token_wf)

lemma add_tokens_termId:
  "termId (add_tokens idx d i ts) u = None \<longleftrightarrow> termId idx u = None \<and> u \<notin> set ts"
  by (induction ts arbitrary: idx i) (auto simp: add_token_termId)

lemma add_tokens_postings:
  "wf_index idx \<Longrightarrow>
     term_postings (add_tokens idx d i ts) u =
       fold (record_position d) (positions_from i u ts) (term_postings idx u)"
  by (induction ts arbitrary: idx i) (simp_all add: add_token_wf add_token_postings)

lemma record_position_fresh:
  "d \<notin> fst ` set ps \<Longrightarrow> record_position d q ps = ps @ [(d, [q])]"
  by (induction ps) auto

lemma record_position_last:
  "d \<notin> fst ` set ps \<Longrightarrow> record_position d q (ps @ [(d, acc)]) = ps @ [(d, acc @ [q])]"
  by (induction ps) auto

lemma fold_record_position_last:
  "d \<notin> fst ` set ps \<Longrightarrow>
     fold (record_position d) qs (ps @ [(d, acc)]) = ps @ [(d, acc @ qs)]"
  by (induction qs arbitrary: acc) (simp_all add: record_position_last)

lemma fold_record_position_fresh:
  assumes "d \<notin> fst ` set ps" and "qs \<noteq> []"
  shows "fold (record_position d) qs ps = ps @ [(d, qs)]"
proof (cases qs)
  case Nil
  with assms show ?thesis by simp
next
  case (Cons q qs')
  then show ?thesis
    using assms fold_record_position_last [of d ps qs' "[q]"]
    by (simp add: record_position_fresh)
qed

lemma occurrences_Cons:
  "occurrences t (x # xs) = (if x = t then [0] else []) @ map Suc (occurrences t xs)"
proof -
  have "[0..<length (x # xs)] = 0 # map Suc [0..<length xs]"
    by (simp add: upt_conv_Cons map_Suc_upt del: upt_Suc)
  then show ?thesis
    by (simp add: occurrences_def filter_map comp_def del: upt_Suc)
qed

lemma positions_from_occurrences:
  "positions_from i t ts = map (\<lambda>j. i + j) (occurrences t ts)"
proof (induction ts arbitrary: i)
  case Nil
  show ?case by (simp add: occurrences_def)
next
  case (Cons x xs)
  show ?case by (simp add: Cons.IH occurrences_Cons)
qed

lemma occurrences_Nil_iff: "occurrences t ts = [] \<longleftrightarrow> t \<notin> set ts"
  by (auto simp: occurrences_def filter_empty_conv in_set_conv_nth)

lemma addDocument_postings:
  assumes "wf_index idx" and "d \<notin> fst ` set (term_postings idx u)"
  shows "term_postings (addDocument idx d ts) u =
           (if u \<in> set ts then term_postings idx u @ [(d, occurrences u ts)]
            else term_postings idx u)"
proof (cases "u \<in> set ts")
  case True
  then have "occurrences u ts \<noteq> []" by (simp add: occurrences_Nil_iff)
  then show ?thesis
    using assms True
    by (simp add: addDocument_def add_tokens_postings positions_from_occurrences
        fold_record_position_fresh)
next
  case False
  then have "occurrences u ts = []" by (simp add: occurrences_Nil_iff)
  then show ?thesis
    using assms False
    by (simp add: addDocument_def add_tokens_postings positions_from_occurrences)
qed

text \<open>
  After the documents were indexed, every term has exactly its expected postings, and a
  term has no dictionary entry exactly when no document contains it.
\<close>

lemma build_correct:
  "distinct (map doc_id docs) \<Longrightarrow>
     wf_index (index_documents docs) \<and>
     term_postings (index_documents docs) t = expected_postings docs t \<and>
     (termId (index_documents docs) t = None \<longleftrightarrow> (\<forall>d\<in>set docs. t \<notin> set (tokens d)))"
proof (induction docs rule: rev_induct)
  case Nil
  have "term_postings empty_index t = []" "termId empty_index t = None"
    by (simp_all add: term_postings_def termId_def empty_index_def)
  then show ?case
    by (simp add: index_documents_def wf_empty_index expected_postings_def)
next
  case (snoc d docs)
  then have IH: "wf_index (index_documents docs)" "term_postings (index_documents docs) t = expected_postings docs t"
    "termId (index_documents docs) t = None \<longleftrightarrow> (\<forall>d\<in>set docs. t \<notin> set (tokens d))"
    by simp_all
  have step: "index_documents (docs @ [d]) = addDocument (index_documents docs) (doc_id d) (tokens d)"
    by (simp add: index_documents_def)
  have fresh: "doc_id d \<notin> fst ` set (term_postings (index_documents docs) t)"
    using snoc.prems by (auto simp: IH(2) expected_postings_def)
  have 1: "wf_index (index_documents (docs @ [d]))"
    using IH(1) by (simp add: step addDocument_def add_tokens_wf)
  have 2: "term_postings (index_documents (docs @ [d])) t = expected_postings (docs @ [d]) t"
    using IH(1) fresh by (simp add: step addDocument_postings IH(2) expected_postings_def)
  have 3: "termId (index_documents (docs @ [d])) t = None \<longleftrightarrow>
      (\<forall>d\<in>set (docs @ [d]). t \<notin> set (tokens d))"
    using IH(3) by (auto simp: step addDocument_def add_tokens_termId)
  from 1 2 3 show ?case by blast
qed

section \<open>Properties of the search operations\<close>

lemma BuildIndex_Inr:
  "BuildIndex docs = Inr eng \<longleftrightarrow>
     docs \<noteq> [] \<and> distinct (map doc_id docs) \<and> eng = \<lparr>documents = docs, index = index_documents docs\<rparr>"
  by (auto simp: BuildIndex_def index_documents_def)

lemma inter_all_set: "ss \<noteq> [] \<Longrightarrow> x \<in> set (inter_all ss) \<longleftrightarrow> (\<forall>s\<in>set ss. x \<in> set s)"
  by (induction ss rule: inter_all.induct) auto

lemma posting_sets_known:
  "\<forall>t\<in>set ts. termId idx t \<noteq> None \<Longrightarrow>
     posting_sets idx ts = Some (map (\<lambda>t. map fst (term_postings idx t)) ts)"
  by (induction ts) (auto simp: term_postings_def)

lemma posting_sets_unknown:
  "\<exists>t\<in>set ts. termId idx t = None \<Longrightarrow> posting_sets idx ts = None"
proof (induction ts)
  case Nil
  then show ?case by simp
next
  case (Cons a ts)
  show ?case
  proof (cases "termId idx a")
    case None
    then show ?thesis by simp
  next
    case (Some tid)
    with Cons.prems have "\<exists>t\<in>set ts. termId idx t = None" by auto
    then have "posting_sets idx ts = None" by (rule Cons.IH)
    with Some show ?thesis by simp
  qed
qed

lemma expected_postings_doc:
  assumes "distinct (map doc_id docs)" and "d \<in> set docs"
  shows "doc_id d \<in> fst ` set (expected_postings docs t) \<longleftrightarrow> t \<in> set (tokens d)"
proof -
  have inj: "inj_on doc_id (set docs)"
    using assms(1) by (simp add: distinct_map)
  show ?thesis
  proof
    assume "doc_id d \<in> fst ` set (expected_postings docs t)"
    then obtain d' where "d' \<in> set docs" "t \<in> set (tokens d')" "doc_id d' = doc_id d"
      by (auto simp: expected_postings_def)
    with inj assms(2) show "t \<in> set (tokens d)" by (auto dest: inj_onD)
  next
    assume "t \<in> set (tokens d)"
    with assms(2) show "doc_id d \<in> fst ` set (expected_postings docs t)"
      by (force simp: expected_postings_def)
  qed
qed

lemma BooleanSearch_eq:
  assumes "BuildIndex docs = Inr eng" and "valid_query tok q"
  shows "BooleanSearch tok eng q =
           Inr (map boolean_hit
                  (sort_key doc_id (filter (\<lambda>d. \<forall>t\<in>set (tok q). t \<in> set (tokens d)) docs)))"
proof -
  from assms(1) have dist: "distinct (map doc_id docs)"
    and eng: "eng = \<lparr>documents = docs, index = index_documents docs\<rparr>"
    by (simp_all add: BuildIndex_Inr)
  note bc = build_correct [OF dist]
  let ?ts = "query_terms tok q"
  have ts: "set ?ts = set (tok q)" "?ts \<noteq> []"
    using assms(2) by (auto simp: query_terms_def valid_query_def)
  show ?thesis
  proof (cases "\<forall>t\<in>set ?ts. termId (index_documents docs) t \<noteq> None")
    case True
    then have ps: "posting_sets (index_documents docs) ?ts =
        Some (map (\<lambda>t. map fst (term_postings (index_documents docs) t)) ?ts)"
      by (rule posting_sets_known)
    have "filter (\<lambda>d. doc_id d \<in> set (inter_all (map (\<lambda>t. map fst (term_postings (index_documents docs) t)) ?ts))) docs
        = filter (\<lambda>d. \<forall>t\<in>set (tok q). t \<in> set (tokens d)) docs"
    proof (rule filter_cong [OF refl])
      fix d assume d: "d \<in> set docs"
      have "doc_id d \<in> set (inter_all (map (\<lambda>t. map fst (term_postings (index_documents docs) t)) ?ts))
          \<longleftrightarrow> (\<forall>t\<in>set ?ts. doc_id d \<in> fst ` set (term_postings (index_documents docs) t))"
        using ts(2) by (simp add: inter_all_set)
      also have "\<dots> \<longleftrightarrow> (\<forall>t\<in>set ?ts. t \<in> set (tokens d))"
        using expected_postings_doc [OF dist d] by (simp add: bc)
      finally show "doc_id d \<in> set (inter_all (map (\<lambda>t. map fst (term_postings (index_documents docs) t)) ?ts))
          \<longleftrightarrow> (\<forall>t\<in>set (tok q). t \<in> set (tokens d))"
        by (simp add: ts(1))
    qed
    then show ?thesis
      using assms(2) ps by (simp add: BooleanSearch_def eng)
  next
    case False
    then obtain t where t: "t \<in> set (tok q)" "termId (index_documents docs) t = None"
      using ts(1) by auto
    then have "\<forall>d\<in>set docs. t \<notin> set (tokens d)" by (simp add: bc)
    with t(1) have "filter (\<lambda>d. \<forall>t\<in>set (tok q). t \<in> set (tokens d)) docs = []"
      by (auto simp: filter_empty_conv)
    moreover have "posting_sets (index_documents docs) ?ts = None"
      using False by (intro posting_sets_unknown) simp
    ultimately show ?thesis
      using assms(2) by (simp add: BooleanSearch_def eng)
  qed
qed

text \<open>
  Claim C1. For a query with at least one term (any other is rejected as InvalidQuery),
  \<open>BooleanSearch\<close> on the engine built from \<open>docs\<close> returns exactly the documents whose
  raw token sequence contains every query term, each document once, in ascending \<open>doc_id\<close>
  order;
  and the result is empty when a query term has no dictionary entry.
\<close>

theorem BooleanSearch_correct:
  assumes "BuildIndex docs = Inr eng" and "valid_query tok q"
  shows "\<exists>hits. BooleanSearch tok eng q = Inr hits \<and>
      hits = map boolean_hit
               (sort_key doc_id (filter (\<lambda>d. \<forall>t\<in>set (tok q). t \<in> set (tokens d)) docs)) \<and>
      set (map hit_doc_id hits) =
        {doc_id d | d. d \<in> set docs \<and> (\<forall>t\<in>set (tok q). t \<in> set (tokens d))} \<and>
      sorted (map hit_doc_id hits) \<and> distinct (map hit_doc_id hits) \<and>
      ((\<exists>t\<in>set (tok q). termId (index eng) t = None) \<longrightarrow> hits = [])"
proof -
  let ?m = "filter (\<lambda>d. \<forall>t\<in>set (tok q). t \<in> set (tokens d)) docs"
  let ?hits = "map boolean_hit (sort_key doc_id ?m)"
  from assms(1) have dist: "distinct (map doc_id docs)"
    and eng: "eng = \<lparr>documents = docs, index = index_documents docs\<rparr>"
    by (simp_all add: BuildIndex_Inr)
  have ids: "map hit_doc_id ?hits = map doc_id (sort_key doc_id ?m)"
    by (simp add: comp_def boolean_hit_def)
  have 1: "BooleanSearch tok eng q = Inr ?hits"
    by (rule BooleanSearch_eq [OF assms])
  have 2: "set (map hit_doc_id ?hits) =
        {doc_id d | d. d \<in> set docs \<and> (\<forall>t\<in>set (tok q). t \<in> set (tokens d))}"
    unfolding ids by auto
  have 3: "sorted (map hit_doc_id ?hits)"
    unfolding ids by (rule sorted_sort_key)
  have "distinct (map doc_id ?m)"
    using dist by (simp add: distinct_map_filter)
  then have 4: "distinct (map hit_doc_id ?hits)"
    unfolding ids by (simp add: distinct_map)
  have 5: "(\<exists>t\<in>set (tok q). termId (index eng) t = None) \<longrightarrow> ?hits = []"
  proof
    assume "\<exists>t\<in>set (tok q). termId (index eng) t = None"
    then obtain t where t: "t \<in> set (tok q)" "termId (index_documents docs) t = None"
      by (auto simp: eng)
    then have "\<forall>d\<in>set docs. t \<notin> set (tokens d)"
      by (simp add: build_correct [OF dist])
    with t(1) have "?m = []" by (auto simp: filter_empty_conv)
    then show "?hits = []" by simp
  qed
  from 1 2 3 4 5 show ?thesis by blast
qed

lemma scenario_built: "BuildIndex scenario = Inr scenario_engine"
  by (simp add: BuildIndex_def scenario_engine_def scenario_def)

lemma scenario_termId:
  "termId (index scenario_engine) ''zebra'' = None"
  "termId (index scenario_engine) ''covid'' = Some 0"
  "termId (index scenario_engine) ''treatment'' = Some 5"
  by (simp_all add: scenario_engine_def scenario_def index_documents_def addDocument_def
      add_token_def empty_index_def termId_def)

theorem BooleanSearch_correct_witness:
  "BooleanSearch whitespace_tokenizer scenario_engine ''covid'' =
     Inr [BooleanHit ''doc1'' ''Trial'' ''doc1.json'' 3, BooleanHit ''doc3'' ''Options'' ''doc3.json'' 3] \<and>
   BooleanSearch whitespace_tokenizer scenario_engine ''covid zebra'' = Inr []"
proof -
  have v1: "valid_query whitespace_tokenizer ''covid''"
    and v2: "valid_query whitespace_tokenizer ''covid zebra''"
    by (simp_all add: valid_query_def whitespace_tokenizer_def)
  have u: "\<exists>t\<in>set (whitespace_tokenizer ''covid zebra''). termId (index scenario_engine) t = None"
    by (simp add: whitespace_tokenizer_def scenario_termId)
  from BooleanSearch_correct [OF scenario_built v1]
  have 1: "BooleanSearch whitespace_tokenizer scenario_engine ''covid'' =
      Inr (map boolean_hit (sort_key doc_id
        (filter (\<lambda>d. \<forall>t\<in>set (whitespace_tokenizer ''covid''). t \<in> set (tokens d)) scenario)))"
    by (elim exE conjE) simp
  from BooleanSearch_correct [OF scenario_built v2]
  obtain hits where "BooleanSearch whitespace_tokenizer scenario_engine ''covid zebra'' = Inr hits"
    and "(\<exists>t\<in>set (whitespace_tokenizer ''covid zebra'').
            termId (index scenario_engine) t = None) \<longrightarrow> hits = []"
    by (elim exE conjE)
  with u have 2: "BooleanSearch whitespace_tokenizer scenario_engine ''covid zebra'' = Inr []"
    by simp
  from 1 2 show ?thesis
    by (simp add: whitespace_tokenizer_def scenario_def boolean_hit_def)
qed

lemma set_occurrences: "set (occurrences t ts) = {i. i < length ts \<and> ts ! i = t}"
  by (auto simp: occurrences_def)

lemma set_position_pairs:
  "set (position_pairs same ps1 ps2) = {(x, y). x \<in> set ps1 \<and> y \<in> set ps2 \<and> (same \<longrightarrow> x \<noteq> y)}"
  by (auto simp: position_pairs_def)

lemma position_pairs_occurrences:
  "(i, j) \<in> set (position_pairs (t1 = t2) (occurrences t1 ts) (occurrences t2 ts)) \<longleftrightarrow>
     occurs_pair t1 t2 ts i j"
  by (auto simp: set_position_pairs set_occurrences occurs_pair_def)

lemma min_distance_None:
  "min_distance same ps1 ps2 = None \<longleftrightarrow> position_pairs same ps1 ps2 = []"
  by (auto simp: min_distance_def split: list.splits)

lemma min_distance_Some:
  "min_distance same ps1 ps2 = Some m \<longleftrightarrow>
     (\<exists>p\<in>set (position_pairs same ps1 ps2). gap (fst p) (snd p) = m) \<and>
     (\<forall>p\<in>set (position_pairs same ps1 ps2). m \<le> gap (fst p) (snd p))"
proof (cases "map (\<lambda>(x, y). gap x y) (position_pairs same ps1 ps2)")
  case Nil
  then show ?thesis by (simp add: min_distance_def)
next
  case (Cons g gs)
  let ?G = "set (map (\<lambda>(x, y). gap x y) (position_pairs same ps1 ps2))"
  have G: "?G = (\<lambda>p. gap (fst p) (snd p)) ` set (position_pairs same ps1 ps2)"
    by (auto simp: case_prod_beta)
  have fin: "finite ?G" "?G \<noteq> {}" using Cons by auto
  have "min_distance same ps1 ps2 = Some (Min ?G)"
    using Cons by (simp add: min_distance_def Min.set_eq_fold [symmetric])
  then have "min_distance same ps1 ps2 = Some m \<longleftrightarrow> Min ?G = m"
    by simp
  also have "\<dots> \<longleftrightarrow> m \<in> ?G \<and> (\<forall>g\<in>?G. m \<le> g)"
    using fin by (metis Min_eqI Min_in Min_le)
  also have "\<dots> \<longleftrightarrow>
     (\<exists>p\<in>set (position_pairs same ps1 ps2). gap (fst p) (snd p) = m) \<and>
     (\<forall>p\<in>set (position_pairs same ps1 ps2). m \<le> gap (fst p) (snd p))"
    unfolding G by (simp add: image_iff Bex_def Ball_def) blast
  finally show ?thesis .
qed

lemma proximity_hits_set:
  "h \<in> set (proximity_hits eng same k p2 p1) \<longleftrightarrow>
     (\<exists>d ps1 ps2 m. (d, ps1) \<in> set p1 \<and> map_of p2 d = Some ps2 \<and>
        min_distance same ps1 ps2 = Some m \<and> int m \<le> k \<and>
        h = ProximityHit d (title_of eng d) m)"
proof (induction p1)
  case Nil
  show ?case by simp
next
  case (Cons p p1)
  obtain d ps1 where p: "p = (d, ps1)" by (cases p)
  show ?case
  proof (cases "map_of p2 d")
    case None
    then show ?thesis by (auto simp: p Cons.IH)
  next
    case ps2: (Some ps2)
    show ?thesis
    proof (cases "min_distance same ps1 ps2")
      case None
      with ps2 show ?thesis by (auto simp: p Cons.IH)
    next
      case (Some m)
      with ps2 show ?thesis by (cases "int m \<le> k") (auto simp: p Cons.IH)
    qed
  qed
qed

lemma proximity_hits_ids:
  "distinct (map fst p1) \<Longrightarrow> distinct (map prox_doc_id (proximity_hits eng same k p2 p1))"
proof (induction p1)
  case Nil
  show ?case by simp
next
  case (Cons p p1)
  obtain d ps1 where p: "p = (d, ps1)" by (cases p)
  have "prox_doc_id h \<in> fst ` set p1" if "h \<in> set (proximity_hits eng same k p2 p1)" for h
    using that by (force simp: proximity_hits_set)
  with Cons show ?case
    by (auto simp: p split: option.splits)
qed

lemma map_of_expected_postings:
  assumes "distinct (map doc_id docs)" and "d \<in> set docs"
  shows "map_of (expected_postings docs t) (doc_id d) =
           (if t \<in> set (tokens d) then Some (occurrences t (tokens d)) else None)"
proof (cases "t \<in> set (tokens d)")
  case True
  have "distinct (map fst (expected_postings docs t))"
    using assms(1) by (simp add: expected_postings_def comp_def distinct_map_filter)
  moreover have "(doc_id d, occurrences t (tokens d)) \<in> set (expected_postings docs t)"
    using assms(2) True by (auto simp: expected_postings_def)
  ultimately show ?thesis
    using True by simp
next
  case False
  then have "doc_id d \<notin> fst ` set (expected_postings docs t)"
    using expected_postings_doc [OF assms] by simp
  then show ?thesis
    using False by (simp add: map_of_eq_None_iff)
qed

lemma title_of_doc:
  assumes "distinct (map doc_id docs)" and "d \<in> set docs"
  shows "title_of \<lparr>documents = docs, index = idx\<rparr> (doc_id d) = title d"
proof -
  have inj: "inj_on doc_id (set docs)"
    using assms(1) by (simp add: distinct_map)
  obtain x where x: "find (\<lambda>x. doc_id x = doc_id d) docs = Some x"
    using assms(2) by (cases "find (\<lambda>x. doc_id x = doc_id d) docs") (auto simp: find_None_iff)
  then have "x \<in> set docs" "doc_id x = doc_id d"
    by (auto simp: find_Some_iff)
  with inj assms(2) have "x = d" by (auto dest: inj_onD)
  with x show ?thesis by (simp add: title_of_def)
qed

lemma min_distance_occurrences:
  "min_distance (t1 = t2) (occurrences t1 ts) (occurrences t2 ts) = Some m \<longleftrightarrow>
     (\<exists>i j. occurs_pair t1 t2 ts i j \<and> gap i j = m) \<and>
     (\<forall>i j. occurs_pair t1 t2 ts i j \<longrightarrow> m \<le> gap i j)"
  unfolding min_distance_Some
  by (simp add: Bex_def Ball_def position_pairs_occurrences)

lemma within_k_iff:
  "(\<exists>m. min_distance (t1 = t2) (occurrences t1 ts) (occurrences t2 ts) = Some m \<and> int m \<le> k) \<longleftrightarrow>
     (\<exists>i j. occurs_pair t1 t2 ts i j \<and> int (gap i j) \<le> k)"
proof
  assume "\<exists>m. min_distance (t1 = t2) (occurrences t1 ts) (occurrences t2 ts) = Some m \<and> int m \<le> k"
  then show "\<exists>i j. occurs_pair t1 t2 ts i j \<and> int (gap i j) \<le> k"
    by (auto simp: min_distance_occurrences)
next
  assume "\<exists>i j. occurs_pair t1 t2 ts i j \<and> int (gap i j) \<le> k"
  then obtain i j where ij: "occurs_pair t1 t2 ts i j" "int (gap i j) \<le> k" by blast
  then have "position_pairs (t1 = t2) (occurrences t1 ts) (occurrences t2 ts) \<noteq> []"
    using position_pairs_occurrences [of i j t1 t2 ts] by auto
  then obtain m where m: "min_distance (t1 = t2) (occurrences t1 ts) (occurrences t2 ts) = Some m"
    by (cases "min_distance (t1 = t2) (occurrences t1 ts) (occurrences t2 ts)")
       (auto simp: min_distance_None)
  then have "m \<le> gap i j" using ij(1) by (simp add: min_distance_occurrences)
  with ij(2) m show "\<exists>m. min_distance (t1 = t2) (occurrences t1 ts) (occurrences t2 ts) = Some m \<and>
      int m \<le> k"
    by auto
qed

lemma occurs_pair_mem: "occurs_pair t1 t2 ts i j \<Longrightarrow> t1 \<in> set ts \<and> t2 \<in> set ts"
  by (auto simp: occurs_pair_def)

lemma proximity_hits_docs:
  assumes dist: "distinct (map doc_id docs)"
  shows "h \<in> set (proximity_hits \<lparr>documents = docs, index = idx\<rparr> (t1 = t2) k
                    (expected_postings docs t2) (expected_postings docs t1)) \<longleftrightarrow>
     (\<exists>d\<in>set docs. \<exists>m.
        min_distance (t1 = t2) (occurrences t1 (tokens d)) (occurrences t2 (tokens d)) = Some m \<and>
        int m \<le> k \<and> h = ProximityHit (doc_id d) (title d) m)"
    (is "?L \<longleftrightarrow> ?R")
proof
  assume ?L
  then obtain d' ps1 ps2 m where h: "(d', ps1) \<in> set (expected_postings docs t1)"
    "map_of (expected_postings docs t2) d' = Some ps2"
    "min_distance (t1 = t2) ps1 ps2 = Some m" "int m \<le> k"
    "h = ProximityHit d' (title_of \<lparr>documents = docs, index = idx\<rparr> d') m"
    unfolding proximity_hits_set by blast
  from h(1) obtain d where d: "d \<in> set docs" "d' = doc_id d" "ps1 = occurrences t1 (tokens d)"
    by (auto simp: expected_postings_def)
  from h(2) have "ps2 = occurrences t2 (tokens d)"
    using map_of_expected_postings [OF dist d(1), of t2] d(2) by (auto split: if_splits)
  with h d show ?R
    using title_of_doc [OF dist d(1), of idx] by auto
next
  assume ?R
  then obtain d m where d: "d \<in> set docs"
    "min_distance (t1 = t2) (occurrences t1 (tokens d)) (occurrences t2 (tokens d)) = Some m"
    "int m \<le> k" "h = ProximityHit (doc_id d) (title d) m"
    by blast
  from d(2) obtain i j where "occurs_pair t1 t2 (tokens d) i j"
    by (auto simp: min_distance_occurrences)
  then have mem: "t1 \<in> set (tokens d)" "t2 \<in> set (tokens d)"
    by (simp_all add: occurs_pair_mem)
  have 1: "(doc_id d, occurrences t1 (tokens d)) \<in> set (expected_postings docs t1)"
    using d(1) mem(1) by (auto simp: expected_postings_def)
  have 2: "map_of (expected_postings docs t2) (doc_id d) = Some (occurrences t2 (tokens d))"
    using map_of_expected_postings [OF dist d(1), of t2] mem(2) by simp
  have 3: "h = ProximityHit (doc_id d) (title_of \<lparr>documents = docs, index = idx\<rparr> (doc_id d)) m"
    using d(4) title_of_doc [OF dist d(1), of idx] by simp
  show ?L
    unfolding proximity_hits_set
    by (intro exI [of _ "doc_id d"] exI [of _ "occurrences t1 (tokens d)"]
        exI [of _ "occurrences t2 (tokens d)"] exI [of _ m] conjI 1 2 3 d(2) d(3))
qed

text \<open>
  Claim C3 takes the minimum over all position pairs for every pair of terms. For
  \<open>term1 = term2\<close> that minimum is 0 in every document that contains the term, but the
  spec's degenerate case leaves the pair of an occurrence with itself out: \<open>doc1\<close> has
  \<open>covid\<close> at position 0 only and is not returned.
\<close>

theorem proximity_same_term_excluded:
  "ProximitySearch scenario_engine ''covid'' ''covid'' 5 = Inr [] \<and>
   doc_id (scenario ! 0) = ''doc1'' \<and> tokens (scenario ! 0) ! 0 = ''covid'' \<and>
   int (gap 0 0) \<le> 5"
  by (simp add: ProximitySearch_def scenario_termId gap_def)
     (simp add: scenario_engine_def scenario_def index_documents_def addDocument_def
      add_token_def empty_index_def termId_def postings_of_def min_distance_def
      position_pairs_def)

text \<open>
  Claim C3, amended. For terms \<open>t1\<close>, \<open>t2\<close> and positive \<open>k\<close>, \<open>ProximitySearch\<close>
  returns a document exactly when \<open>t1\<close> and \<open>t2\<close> occur in it at positions \<open>i\<close> and \<open>j\<close>
  with \<open>|i - j| \<le> k\<close>, where for \<open>t1 = t2\<close> the two positions are distinct; the distance
  it reports is the minimum of \<open>|i - j|\<close> over these pairs; the output is ordered by
  ascending distance, then ascending \<open>doc_id\<close>; and it is empty when either term has no
  dictionary entry.
\<close>

theorem ProximitySearch_correct:
  assumes "BuildIndex docs = Inr eng" and "0 < k" and "t1 \<noteq> []" and "t2 \<noteq> []"
  shows "\<exists>hits. ProximitySearch eng t1 t2 k = Inr hits \<and>
     (\<forall>d\<in>set docs. doc_id d \<in> prox_doc_id ` set hits \<longleftrightarrow>
        (\<exists>i j. occurs_pair t1 t2 (tokens d) i j \<and> int (gap i j) \<le> k)) \<and>
     (\<forall>h\<in>set hits. \<exists>d\<in>set docs. prox_doc_id h = doc_id d \<and> prox_title h = title d \<and>
        (\<exists>i j. occurs_pair t1 t2 (tokens d) i j \<and> gap i j = prox_distance h) \<and>
        (\<forall>i j. occurs_pair t1 t2 (tokens d) i j \<longrightarrow> prox_distance h \<le> gap i j)) \<and>
     sorted (map (\<lambda>h. (prox_distance h, prox_doc_id h)) hits) \<and>
     distinct (map prox_doc_id hits) \<and>
     (termId (index eng) t1 = None \<or> termId (index eng) t2 = None \<longrightarrow> hits = [])"
proof -
  from assms(1) have dist: "distinct (map doc_id docs)"
    and eng: "eng = \<lparr>documents = docs, index = index_documents docs\<rparr>"
    by (simp_all add: BuildIndex_Inr)
  note bc = build_correct [OF dist]
  let ?idx = "index_documents docs"
  show ?thesis
  proof (cases "termId ?idx t1 = None \<or> termId ?idx t2 = None")
    case True
    then have none: "\<forall>d\<in>set docs. t1 \<notin> set (tokens d) \<or> t2 \<notin> set (tokens d)"
      by (auto simp: bc)
    have "ProximitySearch eng t1 t2 k = Inr []"
      using True assms(2-4) by (auto simp: ProximitySearch_def eng split: option.splits)
    moreover have "\<forall>d\<in>set docs. \<not> (\<exists>i j. occurs_pair t1 t2 (tokens d) i j \<and> int (gap i j) \<le> k)"
      using none occurs_pair_mem by blast
    ultimately show ?thesis by simp
  next
    case False
    then obtain a b where ab: "termId ?idx t1 = Some a" "termId ?idx t2 = Some b" by auto
    then have pa: "postings_of ?idx a = expected_postings docs t1"
      and pb: "postings_of ?idx b = expected_postings docs t2"
      using bc [of t1] bc [of t2] by (simp_all add: term_postings_def)
    let ?raw = "proximity_hits eng (t1 = t2) k (expected_postings docs t2) (expected_postings docs t1)"
    let ?hits = "sort_key (\<lambda>h. (prox_distance h, prox_doc_id h)) ?raw"
    have res: "ProximitySearch eng t1 t2 k = Inr ?hits"
      using ab assms(2-4) by (simp add: ProximitySearch_def eng pa pb)
    have mem: "h \<in> set ?hits \<longleftrightarrow>
      (\<exists>d\<in>set docs. \<exists>m.
        min_distance (t1 = t2) (occurrences t1 (tokens d)) (occurrences t2 (tokens d)) = Some m \<and>
        int m \<le> k \<and> h = ProximityHit (doc_id d) (title d) m)" for h
      using proximity_hits_docs [OF dist, of h ?idx t1 t2 k] by (simp add: eng)
    have inj: "inj_on doc_id (set docs)"
      using dist by (simp add: distinct_map)
    have 1: "\<forall>d\<in>set docs. doc_id d \<in> prox_doc_id ` set ?hits \<longleftrightarrow>
        (\<exists>i j. occurs_pair t1 t2 (tokens d) i j \<and> int (gap i j) \<le> k)"
    proof
      fix d assume d: "d \<in> set docs"
      have "doc_id d \<in> prox_doc_id ` set ?hits \<longleftrightarrow>
        (\<exists>m. min_distance (t1 = t2) (occurrences t1 (tokens d)) (occurrences t2 (tokens d)) = Some m \<and>
          int m \<le> k)"
      proof
        assume "doc_id d \<in> prox_doc_id ` set ?hits"
        then obtain h where "h \<in> set ?hits" "prox_doc_id h = doc_id d" by auto
        then obtain d' m where d': "d' \<in> set docs" "doc_id d' = doc_id d"
          "min_distance (t1 = t2) (occurrences t1 (tokens d')) (occurrences t2 (tokens d')) = Some m"
          "int m \<le> k"
          unfolding mem by auto
        with inj d have "d' = d" by (auto dest: inj_onD)
        with d' show "\<exists>m. min_distance (t1 = t2) (occurrences t1 (tokens d))
            (occurrences t2 (tokens d)) = Some m \<and> int m \<le> k"
          by auto
      next
        assume "\<exists>m. min_distance (t1 = t2) (occurrences t1 (tokens d))
            (occurrences t2 (tokens d)) = Some m \<and> int m \<le> k"
        then obtain m where
          "min_distance (t1 = t2) (occurrences t1 (tokens d)) (occurrences t2 (tokens d)) = Some m"
          "int m \<le> k" by blast
        with d have "ProximityHit (doc_id d) (title d) m \<in> set ?hits"
          unfolding mem by blast
        then show "doc_id d \<in> prox_doc_id ` set ?hits" by force
      qed
      then show "doc_id d \<in> prox_doc_id ` set ?hits \<longleftrightarrow>
        (\<exists>i j. occurs_pair t1 t2 (tokens d) i j \<and> int (gap i j) \<le> k)"
        by (simp add: within_k_iff)
    qed
    have 2: "\<forall>h\<in>set ?hits. \<exists>d\<in>set docs. prox_doc_id h = doc_id d \<and> prox_title h = title d \<and>
        (\<exists>i j. occurs_pair t1 t2 (tokens d) i j \<and> gap i j = prox_distance h) \<and>
        (\<forall>i j. occurs_pair t1 t2 (tokens d) i j \<longrightarrow> prox_distance h \<le> gap i j)"
    proof
      fix h assume "h \<in> set ?hits"
      then obtain d m where d: "d \<in> set docs"
        "min_distance (t1 = t2) (occurrences t1 (tokens d)) (occurrences t2 (tokens d)) = Some m"
        "h = ProximityHit (doc_id d) (title d) m"
        unfolding mem by blast
      from d(2) have "(\<exists>i j. occurs_pair t1 t2 (tokens d) i j \<and> gap i j = m) \<and>
          (\<forall>i j. occurs_pair t1 t2 (tokens d) i j \<longrightarrow> m \<le> gap i j)"
        by (simp add: min_distance_occurrences)
      with d(1,3) show "\<exists>d\<in>set docs. prox_doc_id h = doc_id d \<and> prox_title h = title d \<and>
        (\<exists>i j. occurs_pair t1 t2 (tokens d) i j \<and> gap i j = prox_distance h) \<and>
        (\<forall>i j. occurs_pair t1 t2 (tokens d) i j \<longrightarrow> prox_distance h \<le> gap i j)"
        by auto
    qed
    have 3: "sorted (map (\<lambda>h. (prox_distance h, prox_doc_id h)) ?hits)"
      by (rule sorted_sort_key)
    have "distinct (map fst (expected_postings docs t1))"
      using dist by (simp add: expected_postings_def comp_def distinct_map_filter)
    then have "distinct (map prox_doc_id ?raw)"
      by (rule proximity_hits_ids)
    then have 4: "distinct (map prox_doc_id ?hits)"
      by (simp add: distinct_map)
    have 5: "termId (index eng) t1 = None \<or> termId (index eng) t2 = None \<longrightarrow> ?hits = []"
      using ab by (auto simp: eng)
    show ?thesis
      by (intro exI [of _ ?hits] conjI res 1 2 3 4 5)
  qed
qed

theorem ProximitySearch_correct_witness:
  "ProximitySearch scenario_engine ''covid'' ''treatment'' 5 = Inr [ProximityHit ''doc3'' ''Options'' 1] \<and>
   ProximitySearch scenario_engine ''covid'' ''zebra'' 5 = Inr []"
proof -
  have k: "(0::int) < 5" and t: "''covid'' \<noteq> []" "''treatment'' \<noteq> []" "''zebra'' \<noteq> []"
    by simp_all
  have u: "termId (index scenario_engine) ''covid'' = None \<or>
      termId (index scenario_engine) ''zebra'' = None"
    by (simp add: scenario_termId)
  from ProximitySearch_correct [OF scenario_built k t(1) t(3)] u
  have 2: "ProximitySearch scenario_engine ''covid'' ''zebra'' 5 = Inr []"
    by blast
  have "ProximitySearch scenario_engine ''covid'' ''treatment'' 5 =
      Inr [ProximityHit ''doc3'' ''Options'' 1]"
    by (simp add: ProximitySearch_def scenario_termId)
       (simp add: scenario_engine_def scenario_def index_documents_def addDocument_def
        add_token_def empty_index_def termId_def postings_of_def min_distance_def
        position_pairs_def title_of_def gap_def)
  with 2 show ?thesis by simp
qed

lemma rank_positive: "h \<in> set (rank top_k sc docs) \<Longrightarrow> 0 < score h"
  by (auto simp: rank_def dest!: in_set_takeD)

lemma rank_from_docs:
  "h \<in> set (rank top_k sc docs) \<Longrightarrow> \<exists>d\<in>set docs. h = RankedHit (doc_id d) (title d) (sc d)"
  by (auto simp: rank_def dest!: in_set_takeD)

lemma rank_sorted: "sorted_wrt ranked_before (rank top_k sc docs)"
proof -
  let ?key = "\<lambda>h. (- score h, ranked_doc_id h)"
  let ?xs = "sort_key ?key
          (map (\<lambda>d. RankedHit (doc_id d) (title d) (sc d)) (filter (\<lambda>d. 0 < sc d) docs))"
  have "sorted (map ?key ?xs)" by (rule sorted_sort_key)
  then have "sorted_wrt (\<lambda>x y. ?key x \<le> ?key y) ?xs"
    by (simp add: sorted_map)
  moreover have "ranked_before x y" if "?key x \<le> ?key y" for x y
    using that by (auto simp: ranked_before_def less_eq_prod_def)
  ultimately have "sorted_wrt ranked_before ?xs"
    by (rule sorted_wrt_mono_rel [rotated]) auto
  then show ?thesis
    unfolding rank_def by (rule sorted_wrt_take)
qed

lemma rank_length:
  "int (length (rank top_k sc docs)) \<le> min top_k (int (length (filter (\<lambda>d. 0 < sc d) docs)))"
  if "0 < top_k"
  using that by (simp add: rank_def)

text \<open>
  Claim C2. For every query with a term and every positive \<open>top_k\<close>, \<open>VectorSearch\<close> and
  \<open>Bm25Search\<close> return only documents of the engine with a positive score, in descending
  order of score with equal scores in ascending \<open>doc_id\<close> order, and at most
  \<open>min(top_k, number of documents with positive score)\<close> of them.
\<close>

theorem ranked_search_correct:
  assumes "0 < top_k" and "valid_query tok q"
  shows "(\<exists>hits. VectorSearch tok eng q top_k = Inr hits \<and>
            (\<forall>h\<in>set hits. 0 < score h \<and>
               (\<exists>d\<in>set (documents eng).
                  h = RankedHit (doc_id d) (title d) (vector_score tok eng q d))) \<and>
            sorted_wrt ranked_before hits \<and>
            int (length hits) \<le>
              min top_k (int (length (filter (\<lambda>d. 0 < vector_score tok eng q d) (documents eng))))) \<and>
         (\<exists>hits. Bm25Search tok eng q top_k = Inr hits \<and>
            (\<forall>h\<in>set hits. 0 < score h \<and>
               (\<exists>d\<in>set (documents eng).
                  h = RankedHit (doc_id d) (title d) (bm25_score tok eng q d))) \<and>
            sorted_wrt ranked_before hits \<and>
            int (length hits) \<le>
              min top_k (int (length (filter (\<lambda>d. 0 < bm25_score tok eng q d) (documents eng)))))"
proof (intro conjI)
  have "VectorSearch tok eng q top_k = Inr (rank top_k (vector_score tok eng q) (documents eng))"
    using assms by (simp add: VectorSearch_def)
  then show "\<exists>hits. VectorSearch tok eng q top_k = Inr hits \<and>
            (\<forall>h\<in>set hits. 0 < score h \<and>
               (\<exists>d\<in>set (documents eng).
                  h = RankedHit (doc_id d) (title d) (vector_score tok eng q d))) \<and>
            sorted_wrt ranked_before hits \<and>
            int (length hits) \<le>
              min top_k (int (length (filter (\<lambda>d. 0 < vector_score tok eng q d) (documents eng))))"
    using rank_positive rank_from_docs rank_sorted rank_length [OF assms(1)] by blast
next
  have "Bm25Search tok eng q top_k = Inr (rank top_k (bm25_score tok eng q) (documents eng))"
    using assms by (simp add: Bm25Search_def)
  then show "\<exists>hits. Bm25Search tok eng q top_k = Inr hits \<and>
            (\<forall>h\<in>set hits. 0 < score h \<and>
               (\<exists>d\<in>set (documents eng).
                  h = RankedHit (doc_id d) (title d) (bm25_score tok eng q d))) \<and>
            sorted_wrt ranked_before hits \<and>
            int (length hits) \<le>
              min top_k (int (length (filter (\<lambda>d. 0 < bm25_score tok eng q d) (documents eng))))"
    using rank_positive rank_from_docs rank_sorted rank_length [OF assms(1)] by blast
qed

lemma scenario_vaccine:
  "termId (index scenario_engine) ''vaccine'' = Some (Suc 0)"
  "postings_of (index scenario_engine) (Suc 0) = [(''doc1'', [1]), (''doc2'', [0])]"
  by (simp_all add: scenario_engine_def scenario_def index_documents_def addDocument_def
      add_token_def empty_index_def termId_def postings_of_def)

lemma bm25_vaccine:
  "Bm25Search whitespace_tokenizer scenario_engine ''vaccine'' 2 =
     Inr [RankedHit ''doc1'' ''Trial'' (ln (8 / 5)), RankedHit ''doc2'' ''Safety'' (ln (8 / 5))]"
proof -
  have s: "bm25_score whitespace_tokenizer scenario_engine ''vaccine'' d =
      bm25_contribution scenario_engine d (Suc 0)" for d
    by (simp add: bm25_score_def query_terms_def whitespace_tokenizer_def scenario_vaccine)
  have docs: "documents scenario_engine = scenario"
    by (simp add: scenario_engine_def)
  have idf: "bm25_idf scenario_engine (Suc 0) = ln (8 / 5)"
    by (simp add: bm25_idf_def documentFrequency_def scenario_vaccine docs scenario_def)
  have avg: "avgdl scenario_engine = 3"
    by (simp add: avgdl_def docs scenario_def)
  have c1: "bm25_contribution scenario_engine
      \<lparr>doc_id = ''doc1'', title = ''Trial'', filename = ''doc1.json'',
       tokens = [''covid'', ''vaccine'', ''trial'']\<rparr> (Suc 0) = ln (8 / 5)"
    by (simp add: bm25_contribution_def term_frequency_def scenario_vaccine idf avg
        bm25_k1_def bm25_b_def)
  have c2: "bm25_contribution scenario_engine
      \<lparr>doc_id = ''doc2'', title = ''Safety'', filename = ''doc2.json'',
       tokens = [''vaccine'', ''safety'', ''study'']\<rparr> (Suc 0) = ln (8 / 5)"
    by (simp add: bm25_contribution_def term_frequency_def scenario_vaccine idf avg
        bm25_k1_def bm25_b_def)
  have c3: "bm25_contribution scenario_engine
      \<lparr>doc_id = ''doc3'', title = ''Options'', filename = ''doc3.json'',
       tokens = [''covid'', ''treatment'', ''options'']\<rparr> (Suc 0) = 0"
    by (simp add: bm25_contribution_def term_frequency_def scenario_vaccine)
  have v: "valid_query whitespace_tokenizer ''vaccine''"
    by (simp add: valid_query_def whitespace_tokenizer_def)
  have "rank 2 (bm25_score whitespace_tokenizer scenario_engine ''vaccine'') scenario =
      [RankedHit ''doc1'' ''Trial'' (ln (8 / 5)), RankedHit ''doc2'' ''Safety'' (ln (8 / 5))]"
    by (simp add: rank_def scenario_def s c1 c2 c3 less_eq_prod_def)
  then show ?thesis
    using v by (simp add: Bm25Search_def docs)
qed

theorem ranked_search_correct_witness:
  "Bm25Search whitespace_tokenizer scenario_engine ''vaccine'' 2 =
     Inr [RankedHit ''doc1'' ''Trial'' (ln (8 / 5)), RankedHit ''doc2'' ''Safety'' (ln (8 / 5))] \<and>
   (\<exists>hits. VectorSearch whitespace_tokenizer scenario_engine ''vaccine'' 2 = Inr hits \<and>
      sorted_wrt ranked_before hits \<and> int (length hits) \<le> 2)"
proof -
  have k: "(0::int) < 2" by simp
  have v: "valid_query whitespace_tokenizer ''vaccine''"
    by (simp add: valid_query_def whitespace_tokenizer_def)
  from ranked_search_correct [OF k v, of scenario_engine]
  obtain hits where "VectorSearch whitespace_tokenizer scenario_engine ''vaccine'' 2 = Inr hits"
    and "sorted_wrt ranked_before hits"
    and "int (length hits) \<le> min 2 (int (length (filter
           (\<lambda>d. 0 < vector_score whitespace_tokenizer scenario_engine ''vaccine'' d)
           (documents scenario_engine))))"
    by (elim exE conjE)
  then have "\<exists>hits. VectorSearch whitespace_tokenizer scenario_engine ''vaccine'' 2 = Inr hits \<and>
      sorted_wrt ranked_before hits \<and> int (length hits) \<le> 2"
    by auto
  with bm25_vaccine show ?thesis by simp
qed

text \<open>
  Claim C8. For a valid call, whatever the three evaluations do, \<open>MultiSearch\<close> returns a
  response; when exactly one of them ends in an error, the response holds the results of
  the other two and the error marker of the failed one.
\<close>

theorem MultiSearch_isolates_failure:
  assumes "0 < top_k" and "valid_query tok q"
  shows "\<exists>resp. MultiSearch run_vector run_bm25 run_boolean tok q top_k = Inr resp \<and>
      (run_vector q top_k = Inl e \<and> run_bm25 q top_k = Inr bs \<and> run_boolean q = Inr os \<longrightarrow>
         resp = \<lparr>vector = ModelError e, bm25 = ModelResults bs, boolean = ModelResults os\<rparr>) \<and>
      (run_vector q top_k = Inr vs \<and> run_bm25 q top_k = Inl e \<and> run_boolean q = Inr os \<longrightarrow>
         resp = \<lparr>vector = ModelResults vs, bm25 = ModelError e, boolean = ModelResults os\<rparr>) \<and>
      (run_vector q top_k = Inr vs \<and> run_bm25 q top_k = Inr bs \<and> run_boolean q = Inl e \<longrightarrow>
         resp = \<lparr>vector = ModelResults vs, bm25 = ModelResults bs, boolean = ModelError e\<rparr>)"
  using assms by (simp add: MultiSearch_def isolate_def)

lemma boolean_vaccine:
  "BooleanSearch whitespace_tokenizer scenario_engine ''vaccine'' =
     Inr [BooleanHit ''doc1'' ''Trial'' ''doc1.json'' 3, BooleanHit ''doc2'' ''Safety'' ''doc2.json'' 3]"
proof -
  have v: "valid_query whitespace_tokenizer ''vaccine''"
    by (simp add: valid_query_def whitespace_tokenizer_def)
  show ?thesis
    unfolding BooleanSearch_eq [OF scenario_built v]
    by (simp add: whitespace_tokenizer_def scenario_def boolean_hit_def)
qed

theorem MultiSearch_isolates_failure_witness:
  "MultiSearch (\<lambda>q k. Inl ''vector model failed'')
      (\<lambda>q k. run_model (Bm25Search whitespace_tokenizer scenario_engine q k))
      (\<lambda>q. run_model (BooleanSearch whitespace_tokenizer scenario_engine q))
      whitespace_tokenizer ''vaccine'' 2 =
     Inr \<lparr>vector = ModelError ''vector model failed'',
          bm25 = ModelResults [RankedHit ''doc1'' ''Trial'' (ln (8 / 5)),
                               RankedHit ''doc2'' ''Safety'' (ln (8 / 5))],
          boolean = ModelResults [BooleanHit ''doc1'' ''Trial'' ''doc1.json'' 3,
                                  BooleanHit ''doc2'' ''Safety'' ''doc2.json'' 3]\<rparr> \<and>
   MultiSearch (\<lambda>q k. Inr []) (\<lambda>q k. Inl ''bm25 model failed'') (\<lambda>q. Inr [])
      whitespace_tokenizer ''vaccine'' 2 =
     Inr \<lparr>vector = ModelResults [], bm25 = ModelError ''bm25 model failed'',
          boolean = ModelResults []\<rparr> \<and>
   MultiSearch (\<lambda>q k. Inr []) (\<lambda>q k. Inr []) (\<lambda>q. Inl ''boolean model failed'')
      whitespace_tokenizer ''vaccine'' 2 =
     Inr \<lparr>vector = ModelResults [], bm25 = ModelResults [],
          boolean = ModelError ''boolean model failed''\<rparr>"
proof -
  have k: "(0::int) < 2" by simp
  have v: "valid_query whitespace_tokenizer ''vaccine''"
    by (simp add: valid_query_def whitespace_tokenizer_def)
  let ?bm = "\<lambda>q k. run_model (Bm25Search whitespace_tokenizer scenario_engine q k)"
  let ?bo = "\<lambda>q. run_model (BooleanSearch whitespace_tokenizer scenario_engine q)"
  have bm: "?bm ''vaccine'' 2 = Inr [RankedHit ''doc1'' ''Trial'' (ln (8 / 5)),
                               RankedHit ''doc2'' ''Safety'' (ln (8 / 5))]"
    by (simp add: run_model_def bm25_vaccine)
  have bo: "?bo ''vaccine'' = Inr [BooleanHit ''doc1'' ''Trial'' ''doc1.json'' 3,
                                  BooleanHit ''doc2'' ''Safety'' ''doc2.json'' 3]"
    by (simp add: run_model_def boolean_vaccine)
  have 1: "MultiSearch (\<lambda>q k. Inl ''vector model failed'') ?bm ?bo whitespace_tokenizer ''vaccine'' 2 =
     Inr \<lparr>vector = ModelError ''vector model failed'',
          bm25 = ModelResults [RankedHit ''doc1'' ''Trial'' (ln (8 / 5)),
                               RankedHit ''doc2'' ''Safety'' (ln (8 / 5))],
          boolean = ModelResults [BooleanHit ''doc1'' ''Trial'' ''doc1.json'' 3,
                                  BooleanHit ''doc2'' ''Safety'' ''doc2.json'' 3]\<rparr>"
    using bm bo
      MultiSearch_isolates_failure [OF k v, of "\<lambda>q k. Inl ''vector model failed''" ?bm ?bo
        "''vector model failed''"
        "[RankedHit ''doc1'' ''Trial'' (ln (8 / 5)), RankedHit ''doc2'' ''Safety'' (ln (8 / 5))]"
        "[BooleanHit ''doc1'' ''Trial'' ''doc1.json'' 3, BooleanHit ''doc2'' ''Safety'' ''doc2.json'' 3]"]
    by auto
  have 2: "MultiSearch (\<lambda>q k. Inr []) (\<lambda>q k. Inl ''bm25 model failed'') (\<lambda>q. Inr [])
      whitespace_tokenizer ''vaccine'' 2 =
     Inr \<lparr>vector = ModelResults [], bm25 = ModelError ''bm25 model failed'',
          boolean = ModelResults []\<rparr>"
    using MultiSearch_isolates_failure [OF k v, of "\<lambda>q k. Inr []"
        "\<lambda>q k. Inl ''bm25 model failed''" "\<lambda>q. Inr []" "''bm25 model failed''" "[]" "[]" "[]"]
    by auto
  have 3: "MultiSearch (\<lambda>q k. Inr []) (\<lambda>q k. Inr []) (\<lambda>q. Inl ''boolean model failed'')
      whitespace_tokenizer ''vaccine'' 2 =
     Inr \<lparr>vector = ModelResults [], bm25 = ModelResults [],
          boolean = ModelError ''boolean model failed''\<rparr>"
    using MultiSearch_isolates_failure [OF k v, of "\<lambda>q k. Inr []" "\<lambda>q k. Inr []"
        "\<lambda>q. Inl ''boolean model failed''" "''boolean model failed''" "[]" "[]" "[]"]
    by auto
  from 1 2 3 show ?thesis by blast
qed

section \<open>The signals "no results" and "error"\<close>












end
